theory Spec2Isabelle
  imports Complex_Main "HOL-Library.AList" "HOL-Library.Sublist"
begin

section \<open>Data model\<close>

text \<open>
  Exceptions are values. The three constructors are the classes the source
  distinguishes: \<open>ConnectionRefusedError\<close> (a subclass of \<open>ConnectionError\<close> in
  Python), any other \<open>ConnectionError\<close>, and any other subclass of \<open>Exception\<close>.
  Each carries the text \<open>str(e)\<close>. Exceptions outside \<open>Exception\<close>
  (\<open>KeyboardInterrupt\<close>, \<open>SystemExit\<close>) are not modelled.
\<close>

datatype exn =
    ConnectionRefusedError string
  | ConnectionError string
  | OtherException string

fun exn_text :: "exn \<Rightarrow> string" where
  "exn_text (ConnectionRefusedError m) = m"
| "exn_text (ConnectionError m) = m"
| "exn_text (OtherException m) = m"

text \<open>\<open>isinstance(e, ConnectionRefusedError)\<close> and \<open>isinstance(e, ConnectionError)\<close>.\<close>

fun is_ConnectionRefusedError :: "exn \<Rightarrow> bool" where
  "is_ConnectionRefusedError (ConnectionRefusedError m) = True"
| "is_ConnectionRefusedError e = False"

fun is_ConnectionError :: "exn \<Rightarrow> bool" where
  "is_ConnectionError (OtherException m) = False"
| "is_ConnectionError e = True"

text \<open>\<open>str(n)\<close> for a Python int, as the f-strings of the connector print the port.\<close>

function str_nat :: "nat \<Rightarrow> string" where
  "str_nat n =
     (if n < 10 then [''0123456789'' ! n]
      else str_nat (n div 10) @ [''0123456789'' ! (n mod 10)])"
  by pat_completeness auto
termination
  by (relation "measure id") auto

definition str_int :: "int \<Rightarrow> string" where
  "str_int i = (if i < 0 then CHR ''-'' # str_nat (nat (- i)) else str_nat (nat i))"

text \<open>\<open>ib_insync.AccountValue\<close>: the fields the source reads are \<open>tag\<close> and \<open>value\<close>.\<close>

record account_value =
  av_account :: string
  av_tag :: string
  av_value :: string
  av_currency :: string

text \<open>\<open>Stock(symbol, exchange, currency)\<close>.\<close>

record contract =
  c_symbol :: string
  c_exchange :: string
  c_currency :: string

definition Stock :: "string \<Rightarrow> string \<Rightarrow> string \<Rightarrow> contract" where
  "Stock sy ex cu = \<lparr>c_symbol = sy, c_exchange = ex, c_currency = cu\<rparr>"

text \<open>
  A Python float, as far as the source looks at it: NaN or a number. The
  source only tests the truthiness of a price and copies it. NaN is the value
  an \<open>ib_insync\<close> ticker holds for a price that has not arrived, and Python
  counts it as true; an infinity behaves as any number other than \<open>0\<close>.
\<close>

datatype pyfloat = NaN | Num real

text \<open>
  A snapshot ticker. A price or volume is \<open>None\<close> or a float. \<open>tk_time\<close> is
  the timestamp, given by its \<open>isoformat()\<close> text; \<open>tk_str\<close> is
  \<open>str(ticker)\<close>.
\<close>

record ticker =
  tk_last :: "pyfloat option"
  tk_bid :: "pyfloat option"
  tk_ask :: "pyfloat option"
  tk_close :: "pyfloat option"
  tk_volume :: "pyfloat option"
  tk_time :: "string option"
  tk_str :: string

text \<open>
  Python truthiness of an optional float: \<open>None\<close> and \<open>0\<close> are false, every
  other value is true, NaN included.
\<close>

fun truthy :: "pyfloat option \<Rightarrow> bool" where
  "truthy None = False"
| "truthy (Some NaN) = True"
| "truthy (Some (Num x)) = (x \<noteq> 0)"

fun str_ticker :: "ticker option \<Rightarrow> string" where
  "str_ticker None = ''None''"
| "str_ticker (Some t) = tk_str t"

text \<open>The mapping stored under \<open>market_data\<close> when data arrived.\<close>

record market_fields =
  md_symbol :: string
  md_last_price :: "pyfloat option"
  md_bid_price :: "pyfloat option"
  md_ask_price :: "pyfloat option"
  md_close_price :: "pyfloat option"
  md_volume :: "pyfloat option"
  md_timestamp :: "string option"

text \<open>\<open>results['market_data']\<close> is \<open>None\<close>, a mapping or a message.\<close>

datatype market_data = MdNone | MdDict market_fields | MdText string

text \<open>
  A Python \<open>dict\<close> of strings is an association list with distinct keys in
  insertion order: \<open>d[k] = v\<close> is \<open>AList.update k v d\<close>, \<open>len(d)\<close> is
  \<open>length d\<close>, \<open>d.get(k)\<close> is \<open>map_of d k\<close>.
\<close>

type_synonym pydict = "(string \<times> string) list"

record results =
  connection_status :: bool
  account_summary :: pydict
  market_data :: market_data
  error :: "string option"

record stage_input =
  host :: string
  port :: int
  client_id :: int
  account_code :: string
  symbol :: string
  exchange :: string
  currency :: string

section \<open>The brokerage client\<close>

text \<open>
  The \<open>ib_insync.IB\<close> object is outside the repository. It is a state of any
  type \<open>'s\<close> with the eight operations the source calls. \<open>isConnected\<close> reads
  the state; every other operation returns a value or raises, and moves the
  client to a new state (where the session may have dropped).
\<close>

record 's ib_api =
  ib_isConnected :: "'s \<Rightarrow> bool"
  ib_connect :: "string \<Rightarrow> int \<Rightarrow> int \<Rightarrow> 's \<Rightarrow> (exn + unit) \<times> 's"
  ib_disconnect :: "'s \<Rightarrow> (exn + unit) \<times> 's"
  ib_accountValues :: "string \<Rightarrow> 's \<Rightarrow> (exn + account_value list) \<times> 's"
  ib_reqMktData :: "contract \<Rightarrow> 's \<Rightarrow> (exn + unit) \<times> 's"
  ib_sleep :: "'s \<Rightarrow> (exn + unit) \<times> 's"
  ib_ticker :: "contract \<Rightarrow> 's \<Rightarrow> (exn + ticker option) \<times> 's"
  ib_cancelMktData :: "contract \<Rightarrow> 's \<Rightarrow> (exn + unit) \<times> 's"

text \<open>
  The calls a run makes, in order. \<open>ManagerDisconnect\<close> marks a call of
  \<open>ConnectionManager.disconnect\<close>; the others are calls on the client.
\<close>

datatype call =
    Connect | Disconnect | AccountValues | ReqMktData | Sleep | Ticker
  | CancelMktData | ManagerDisconnect

text \<open>
  The objects of one run: the client (\<open>IBConnector.ib\<close>, which is also the
  object \<open>ConnectionManager._ib_instance\<close> points to once set), the connector's
  flag \<open>_is_connected\<close>, whether \<open>_ib_instance\<close> is set, and the calls so far.
\<close>

record 's world =
  ib :: 's
  is_connected_flag :: bool
  ib_instance :: bool
  calls :: "call list"

section \<open>IBConnector\<close>

definition IBConnector_connect ::
  "'s ib_api \<Rightarrow> stage_input \<Rightarrow> 's world \<Rightarrow> (exn + unit) \<times> 's world" where
  "IBConnector_connect api inp w =
     (if \<not> ib_isConnected api (ib w) then
        (case ib_connect api (host inp) (port inp) (client_id inp) (ib w) of
           (Inr u, s') \<Rightarrow>
             (Inr (), w\<lparr>ib := s', is_connected_flag := True, calls := calls w @ [Connect]\<rparr>)
         | (Inl e, s') \<Rightarrow>
             (if is_ConnectionRefusedError e then
                (Inl (ConnectionError (''Connection refused by IB Gateway/TWS on ''
                        @ host inp @ '':'' @ str_int (port inp))),
                 w\<lparr>ib := s', is_connected_flag := False, calls := calls w @ [Connect]\<rparr>)
              else
                (Inl (ConnectionError (''Failed to connect to IB: '' @ exn_text e)),
                 w\<lparr>ib := s', is_connected_flag := False, calls := calls w @ [Connect]\<rparr>)))
      else (Inr (), w\<lparr>is_connected_flag := True\<rparr>))"

definition IBConnector_disconnect ::
  "'s ib_api \<Rightarrow> 's world \<Rightarrow> (exn + unit) \<times> 's world" where
  "IBConnector_disconnect api w =
     (if ib_isConnected api (ib w) then
        (case ib_disconnect api (ib w) of
           (Inr u, s') \<Rightarrow>
             (Inr (), w\<lparr>ib := s', is_connected_flag := False, calls := calls w @ [Disconnect]\<rparr>)
         | (Inl e, s') \<Rightarrow> (Inl e, w\<lparr>ib := s', calls := calls w @ [Disconnect]\<rparr>))
      else (Inr (), w))"

definition IBConnector_is_connected :: "'s ib_api \<Rightarrow> 's world \<Rightarrow> bool \<times> 's world" where
  "IBConnector_is_connected api w =
     (if ib_isConnected api (ib w) then (True, w\<lparr>is_connected_flag := True\<rparr>)
      else (False, w\<lparr>is_connected_flag := False\<rparr>))"

section \<open>ConnectionManager\<close>

text \<open>
  \<open>__init__\<close> always builds the connector, so the test \<open>_ib_connector is None\<close>
  of the source never holds and its branches are left out. A new manager has a
  new client, the flag false and \<open>_ib_instance\<close> unset.
\<close>

definition ConnectionManager_init :: "'s \<Rightarrow> 's world" where
  "ConnectionManager_init s0 =
     \<lparr>ib = s0, is_connected_flag = False, ib_instance = False, calls = []\<rparr>"

definition ConnectionManager_is_connected :: "'s ib_api \<Rightarrow> 's world \<Rightarrow> bool \<times> 's world" where
  "ConnectionManager_is_connected api w = IBConnector_is_connected api w"

text \<open>
  \<open>get_ib_instance\<close> returns the client object itself, which the world already
  holds; the model returns \<open>()\<close>. The handler \<open>except ConnectionError: raise\<close>
  re-raises, so every exception of \<open>connect\<close> leaves unchanged.
\<close>

definition get_ib_instance ::
  "'s ib_api \<Rightarrow> stage_input \<Rightarrow> 's world \<Rightarrow> (exn + unit) \<times> 's world" where
  "get_ib_instance api inp w =
     (case IBConnector_is_connected api w of (c1, w1) \<Rightarrow>
      (case (if \<not> c1 then
               (case IBConnector_connect api inp w1 of
                  (Inr u, w2) \<Rightarrow> (Inr (), w2\<lparr>ib_instance := True\<rparr>)
                | (Inl e, w2) \<Rightarrow> (Inl e, w2))
             else (Inr (), w1)) of
         (Inl e, w2) \<Rightarrow> (Inl e, w2)
       | (Inr u, w2) \<Rightarrow>
           (case IBConnector_is_connected api w2 of (c2, w3) \<Rightarrow>
            (let w4 = (if c2 \<and> \<not> ib_instance w3 then w3\<lparr>ib_instance := True\<rparr> else w3)
             in if \<not> ib_instance w4
                then (Inl (ConnectionError ''Failed to obtain IB instance from connector.''), w4)
                else (Inr (), w4)))))"

definition ConnectionManager_disconnect ::
  "'s ib_api \<Rightarrow> 's world \<Rightarrow> (exn + unit) \<times> 's world" where
  "ConnectionManager_disconnect api w =
     (case IBConnector_is_connected api (w\<lparr>calls := calls w @ [ManagerDisconnect]\<rparr>) of
        (c, w1) \<Rightarrow>
          (if c then
             (case IBConnector_disconnect api w1 of
                (Inr u, w2) \<Rightarrow> (Inr (), w2\<lparr>ib_instance := False\<rparr>)
              | (Inl e, w2) \<Rightarrow> (Inl e, w2))
           else (Inr (), w1)))"

definition known_tags :: "string list" where
  "known_tags =
     [''NetLiquidation'', ''TotalCashValue'', ''RealizedPnL'', ''UnrealizedPnL'', ''CashBalance'']"

text \<open>The loop \<open>for acc_val in acc_values\<close> over the summary built so far.\<close>

fun collect_tags :: "account_value list \<Rightarrow> pydict \<Rightarrow> pydict" where
  "collect_tags [] summary = summary"
| "collect_tags (acc_val # rest) summary =
     collect_tags rest
       (if av_tag acc_val \<in> set known_tags
        then AList.update (av_tag acc_val) (av_value acc_val) summary
        else summary)"

text \<open>\<open>d.get(k, default)\<close>.\<close>

definition dict_get :: "pydict \<Rightarrow> string \<Rightarrow> string \<Rightarrow> string" where
  "dict_get d k dflt = (case map_of d k of Some v \<Rightarrow> v | None \<Rightarrow> dflt)"

text \<open>
  \<open>summary.update({...})\<close>: the three values are computed from the summary as it
  is, then stored in order.
\<close>

definition live_check_fallback :: "pydict \<Rightarrow> pydict" where
  "live_check_fallback summary =
     (let nl = dict_get summary ''NetLiquidation'' ''N/A (Live-Check)'';
          tc = dict_get summary ''TotalCashValue'' ''N/A (Live-Check)''
      in AList.update ''Note'' ''Some values might be missing from live feed for this account.''
           (AList.update ''TotalCashValue'' tc
              (AList.update ''NetLiquidation'' nl summary)))"

text \<open>The body of the \<open>try\<close> of \<open>get_account_summary\<close>.\<close>

definition account_summary_live ::
  "'s ib_api \<Rightarrow> string \<Rightarrow> 's world \<Rightarrow> (exn + pydict) \<times> 's world" where
  "account_summary_live api acct w =
     (case ib_accountValues api acct (ib w) of
        (Inl e, s') \<Rightarrow> (Inl e, w\<lparr>ib := s', calls := calls w @ [AccountValues]\<rparr>)
      | (Inr acc_values, s') \<Rightarrow>
          (let w' = w\<lparr>ib := s', calls := calls w @ [AccountValues]\<rparr> in
           if acc_values = [] then
             (Inr [(''Error'', ''No account values returned''), (''AccountCode'', acct)], w')
           else
             (let summary = collect_tags acc_values
                    [(''AccountCode'', acct), (''ConnectionStatus'', ''Connected - Live Data'')]
              in if length summary \<le> 2 then (Inr (live_check_fallback summary), w')
                 else (Inr summary, w'))))"

definition get_account_summary ::
  "'s ib_api \<Rightarrow> string \<Rightarrow> 's world \<Rightarrow> (exn + pydict) \<times> 's world" where
  "get_account_summary api acct w =
     (case ConnectionManager_is_connected api w of (c, w1) \<Rightarrow>
        (if \<not> c \<or> \<not> ib_instance w1 then
           (Inr [(''AccountCode'', acct),
                 (''NetLiquidation'', ''1000000 (Mock)''),
                 (''TotalCashValue'', ''1000000 (Mock)''),
                 (''RealizedPnL'', ''0 (Mock)''),
                 (''UnrealizedPnL'', ''0 (Mock)''),
                 (''ConnectionStatus'', ''Disconnected - Mock Data'')], w1)
         else
           (case account_summary_live api acct w1 of
              (Inr summary, w2) \<Rightarrow> (Inr summary, w2)
            | (Inl e, w2) \<Rightarrow>
                (Inr [(''AccountCode'', acct),
                      (''Error'', exn_text e),
                      (''NetLiquidation'', ''Error (Mock)''),
                      (''TotalCashValue'', ''Error (Mock)''),
                      (''ConnectionStatus'', ''Connected but error fetching - Mock Data'')], w2))))"

section \<open>Stage one\<close>

text \<open>What the snapshot branch of the market-data step stores.\<close>

definition snapshot :: "string \<Rightarrow> ticker option \<Rightarrow> market_data" where
  "snapshot sy tko =
     (case tko of
        None \<Rightarrow> MdText (''No market data received for '' @ sy @ ''. Ticker: '' @ str_ticker tko)
      | Some t \<Rightarrow>
          (if truthy (tk_last t) \<or> truthy (tk_close t) then
             MdDict \<lparr>md_symbol = sy, md_last_price = tk_last t, md_bid_price = tk_bid t,
                     md_ask_price = tk_ask t, md_close_price = tk_close t,
                     md_volume = tk_volume t, md_timestamp = tk_time t\<rparr>
           else MdText (''No market data received for '' @ sy @ ''. Ticker: '' @ str_ticker tko)))"

text \<open>The body of the inner \<open>try\<close>: request, wait two seconds, read the ticker.\<close>

definition request_snapshot ::
  "'s ib_api \<Rightarrow> string \<Rightarrow> contract \<Rightarrow> 's world \<Rightarrow> (exn + market_data) \<times> 's world" where
  "request_snapshot api sy con w =
     (case ib_reqMktData api con (ib w) of
        (Inl e, s1) \<Rightarrow> (Inl e, w\<lparr>ib := s1, calls := calls w @ [ReqMktData]\<rparr>)
      | (Inr u, s1) \<Rightarrow>
          (case ib_sleep api s1 of
             (Inl e, s2) \<Rightarrow> (Inl e, w\<lparr>ib := s2, calls := calls w @ [ReqMktData, Sleep]\<rparr>)
           | (Inr u, s2) \<Rightarrow>
               (case ib_ticker api con s2 of
                  (Inl e, s3) \<Rightarrow>
                    (Inl e, w\<lparr>ib := s3, calls := calls w @ [ReqMktData, Sleep, Ticker]\<rparr>)
                | (Inr tko, s3) \<Rightarrow>
                    (Inr (snapshot sy tko),
                     w\<lparr>ib := s3, calls := calls w @ [ReqMktData, Sleep, Ticker]\<rparr>))))"

text \<open>The inner \<open>try\<close> with its \<open>except Exception as md_e\<close>.\<close>

definition fetch_market_data ::
  "'s ib_api \<Rightarrow> string \<Rightarrow> contract \<Rightarrow> 's world \<Rightarrow> market_data \<times> 's world" where
  "fetch_market_data api sy con w =
     (case request_snapshot api sy con w of
        (Inr md, w1) \<Rightarrow> (md, w1)
      | (Inl md_e, w1) \<Rightarrow>
          (MdText (''Error fetching market data for '' @ sy @ '': '' @ exn_text md_e), w1))"

text \<open>
  The inner statement with its \<open>finally\<close>: the subscription is cancelled if the
  client reports the session open, and an exception of the cancellation leaves
  the statement.
\<close>

definition market_data_step ::
  "'s ib_api \<Rightarrow> string \<Rightarrow> contract \<Rightarrow> results \<Rightarrow> 's world
     \<Rightarrow> (exn + unit) \<times> results \<times> 's world" where
  "market_data_step api sy con res w =
     (case fetch_market_data api sy con w of (md, w1) \<Rightarrow>
        (if ib_isConnected api (ib w1) then
           (case ib_cancelMktData api con (ib w1) of
              (Inr u, s') \<Rightarrow>
                (Inr (), res\<lparr>market_data := md\<rparr>,
                 w1\<lparr>ib := s', calls := calls w1 @ [CancelMktData]\<rparr>)
            | (Inl e, s') \<Rightarrow>
                (Inl e, res\<lparr>market_data := md\<rparr>,
                 w1\<lparr>ib := s', calls := calls w1 @ [CancelMktData]\<rparr>))
         else (Inr (), res\<lparr>market_data := md\<rparr>, w1)))"

text \<open>
  The outer \<open>try\<close> up to the market-data step (steps 1 and 2 of the source):
  it raises, or takes the early \<open>return results\<close>, or goes on to step 3.
\<close>

datatype flow = Raised exn | Returned | Continue

definition stage_one_setup ::
  "'s ib_api \<Rightarrow> stage_input \<Rightarrow> results \<Rightarrow> 's world \<Rightarrow> flow \<times> results \<times> 's world" where
  "stage_one_setup api inp res w =
     (case get_ib_instance api inp w of
        (Inl e, w1) \<Rightarrow> (Raised e, res, w1)
      | (Inr u, w1) \<Rightarrow>
          (case ConnectionManager_is_connected api w1 of (c, w2) \<Rightarrow>
             (let res1 = res\<lparr>connection_status := c\<rparr> in
              if \<not> c then
                (let res2 = res1\<lparr>error := Some ''Failed to connect to Interactive Brokers.''\<rparr> in
                 case get_account_summary api (account_code inp) w2 of
                   (Inl e, w3) \<Rightarrow> (Raised e, res2, w3)
                 | (Inr d, w3) \<Rightarrow> (Returned, res2\<lparr>account_summary := d\<rparr>, w3))
              else
                (case get_account_summary api (account_code inp) w2 of
                   (Inl e, w3) \<Rightarrow> (Raised e, res1, w3)
                 | (Inr d, w3) \<Rightarrow> (Continue, res1\<lparr>account_summary := d\<rparr>, w3)))))"

text \<open>
  The body of the outer \<open>try\<close>. The early \<open>return results\<close> ends the body
  normally: the \<open>finally\<close> block runs next and returns the same record.
\<close>

definition stage_one_try ::
  "'s ib_api \<Rightarrow> stage_input \<Rightarrow> results \<Rightarrow> 's world \<Rightarrow> (exn + unit) \<times> results \<times> 's world" where
  "stage_one_try api inp res w =
     (case stage_one_setup api inp res w of
        (Raised e, res1, w1) \<Rightarrow> (Inl e, res1, w1)
      | (Returned, res1, w1) \<Rightarrow> (Inr (), res1, w1)
      | (Continue, res1, w1) \<Rightarrow>
          market_data_step api (symbol inp)
            (Stock (symbol inp) (exchange inp) (currency inp)) res1 w1)"

text \<open>
  The two handlers of the outer \<open>try\<close>. \<open>if manager\<close> holds for every manager
  object. A handler may itself raise (through \<open>get_account_summary\<close>); the
  result is then an exception in flight.
\<close>

definition stage_one_except ::
  "'s ib_api \<Rightarrow> stage_input \<Rightarrow> exn \<Rightarrow> results \<Rightarrow> 's world
     \<Rightarrow> (exn + unit) \<times> results \<times> 's world" where
  "stage_one_except api inp e res w =
     (if is_ConnectionError e then
        (let res1 = res\<lparr>error := Some (''Stage One Connection Error: '' @ exn_text e)\<rparr> in
         case get_account_summary api (account_code inp) w of
           (Inl e', w1) \<Rightarrow> (Inl e', res1, w1)
         | (Inr d, w1) \<Rightarrow>
             (Inr (), res1\<lparr>account_summary := d, connection_status := False\<rparr>, w1))
      else
        (let res1 = res\<lparr>error :=
                 Some (''An unexpected error occurred in Stage One: '' @ exn_text e)\<rparr> in
         case get_account_summary api (account_code inp) w of
           (Inl e', w1) \<Rightarrow> (Inl e', res1, w1)
         | (Inr d, w1) \<Rightarrow>
             (case ConnectionManager_is_connected api w1 of (c, w2) \<Rightarrow>
                (Inr (), res1\<lparr>account_summary := d, connection_status := c\<rparr>, w2))))"

text \<open>
  The outer \<open>finally\<close>: disconnect if the manager reports a connection, then
  \<open>return results\<close>. A \<open>return\<close> in a \<open>finally\<close> block drops an exception in
  flight, so only an exception raised in the block itself leaves the function.
\<close>

definition stage_one_finally ::
  "'s ib_api \<Rightarrow> results \<Rightarrow> 's world \<Rightarrow> (exn + results) \<times> 's world" where
  "stage_one_finally api res w =
     (case ConnectionManager_is_connected api w of (c, w1) \<Rightarrow>
        (if c then
           (case ConnectionManager_disconnect api w1 of
              (Inl e, w2) \<Rightarrow> (Inl e, w2)
            | (Inr u, w2) \<Rightarrow> (Inr res, w2))
         else (Inr res, w1)))"

definition initial_results :: results where
  "initial_results =
     \<lparr>connection_status = False, account_summary = [], market_data = MdNone, error = None\<rparr>"

text \<open>
  \<open>initialize_stage_one\<close> on a client \<open>api\<close> whose new \<open>IB()\<close> object starts in
  state \<open>s0\<close>. The result is the returned record or the exception that leaves
  the function, with the final world (and the calls made).
\<close>

definition initialize_stage_one ::
  "'s ib_api \<Rightarrow> stage_input \<Rightarrow> 's \<Rightarrow> (exn + results) \<times> 's world" where
  "initialize_stage_one api inp s0 =
     (case stage_one_try api inp initial_results (ConnectionManager_init s0) of
        (Inr u, res, w) \<Rightarrow> stage_one_finally api res w
      | (Inl e, res, w) \<Rightarrow>
          (case stage_one_except api inp e res w of
             (outcome, res1, w1) \<Rightarrow> stage_one_finally api res1 w1))"

section \<open>Concrete clients and inputs\<close>

text \<open>
  A simulated client for running the model. Its state is whether the session
  is open; a configuration fixes what each operation answers.
\<close>

record sim =
  sim_connect :: "exn option"
  sim_values :: "exn + account_value list"
  sim_request :: "exn option"
  sim_drop :: bool
  sim_ticker :: "exn + ticker option"
  sim_cancel :: "exn option"
  sim_disconnect :: "exn option"

definition sim_api :: "sim \<Rightarrow> bool ib_api" where
  "sim_api cfg =
     \<lparr>ib_isConnected = (\<lambda>s. s),
      ib_connect = (\<lambda>h p c s. case sim_connect cfg of
                      None \<Rightarrow> (Inr (), True) | Some e \<Rightarrow> (Inl e, False)),
      ib_disconnect = (\<lambda>s. case sim_disconnect cfg of
                      None \<Rightarrow> (Inr (), False) | Some e \<Rightarrow> (Inl e, s)),
      ib_accountValues = (\<lambda>a s. (sim_values cfg, s)),
      ib_reqMktData = (\<lambda>con s. case sim_request cfg of
                      None \<Rightarrow> (Inr (), s \<and> \<not> sim_drop cfg)
                    | Some e \<Rightarrow> (Inl e, s \<and> \<not> sim_drop cfg)),
      ib_sleep = (\<lambda>s. (Inr (), s)),
      ib_ticker = (\<lambda>con s. (sim_ticker cfg, s)),
      ib_cancelMktData = (\<lambda>con s. case sim_cancel cfg of
                      None \<Rightarrow> (Inr (), s) | Some e \<Rightarrow> (Inl e, s))\<rparr>"

definition default_input :: stage_input where
  "default_input =
     \<lparr>host = ''127.0.0.1'', port = 7497, client_id = 1, account_code = ''DU1234567'',
      symbol = ''AAPL'', exchange = ''SMART'', currency = ''USD''\<rparr>"

definition sample_values :: "account_value list" where
  "sample_values =
     [\<lparr>av_account = ''DU1234567'', av_tag = ''NetLiquidation'', av_value = ''250000'',
       av_currency = ''USD''\<rparr>,
      \<lparr>av_account = ''DU1234567'', av_tag = ''BuyingPower'', av_value = ''900000'',
       av_currency = ''USD''\<rparr>,
      \<lparr>av_account = ''DU1234567'', av_tag = ''CashBalance'', av_value = ''40000'',
       av_currency = ''USD''\<rparr>]"

definition unknown_values :: "account_value list" where
  "unknown_values =
     [\<lparr>av_account = ''DU1234567'', av_tag = ''BuyingPower'', av_value = ''900000'',
       av_currency = ''USD''\<rparr>]"

definition priced_ticker :: ticker where
  "priced_ticker =
     \<lparr>tk_last = Some (Num 150), tk_bid = Some (Num 149), tk_ask = Some (Num 151),
      tk_close = Some (Num 148), tk_volume = Some (Num 100000), tk_time = Some ''2023-01-01T12:00:00'',
      tk_str = ''Ticker(AAPL)''\<rparr>"

definition zero_ticker :: ticker where
  "zero_ticker =
     \<lparr>tk_last = Some (Num 0), tk_bid = Some (Num 149), tk_ask = Some (Num 151),
      tk_close = Some (Num 0),
      tk_volume = None, tk_time = None, tk_str = ''Ticker(AAPL)''\<rparr>"

definition empty_ticker :: ticker where
  "empty_ticker =
     \<lparr>tk_last = None, tk_bid = None, tk_ask = None, tk_close = None,
      tk_volume = None, tk_time = None, tk_str = ''Ticker(AAPL)''\<rparr>"

text \<open>The ticker of a subscription for which no price has arrived: every float is NaN.\<close>

definition nan_ticker :: ticker where
  "nan_ticker =
     \<lparr>tk_last = Some NaN, tk_bid = Some NaN, tk_ask = Some NaN, tk_close = Some NaN,
      tk_volume = Some NaN, tk_time = None, tk_str = ''Ticker(AAPL)''\<rparr>"

text \<open>A terminal that answers every call.\<close>

definition live_sim :: sim where
  "live_sim =
     \<lparr>sim_connect = None, sim_values = Inr sample_values, sim_request = None,
      sim_drop = False, sim_ticker = Inr (Some priced_ticker), sim_cancel = None,
      sim_disconnect = None\<rparr>"

text \<open>No terminal is listening: \<open>connect\<close> raises \<open>ConnectionRefusedError\<close>.\<close>

definition refused_sim :: sim where
  "refused_sim = live_sim\<lparr>sim_connect := Some (ConnectionRefusedError ''[Errno 111] Connect call failed'')\<rparr>"

text \<open>The session drops while the market-data request is sent.\<close>

definition dropping_sim :: sim where
  "dropping_sim = live_sim\<lparr>sim_request := Some (ConnectionError ''Not connected''), sim_drop := True\<rparr>"

text \<open>The snapshot has no price and the cancellation raises.\<close>

definition cancel_fails_sim :: sim where
  "cancel_fails_sim =
     live_sim\<lparr>sim_ticker := Inr (Some empty_ticker), sim_cancel := Some (ConnectionError ''Not connected'')\<rparr>"

text \<open>No ticker comes back, or one whose prices are \<open>0\<close>.\<close>

definition no_ticker_sim :: sim where
  "no_ticker_sim = live_sim\<lparr>sim_ticker := Inr None\<rparr>"

definition zero_price_sim :: sim where
  "zero_price_sim = live_sim\<lparr>sim_ticker := Inr (Some zero_ticker)\<rparr>"

text \<open>The account query answers with no values, with unknown tags only, or raises.\<close>

definition no_values_sim :: sim where
  "no_values_sim = live_sim\<lparr>sim_values := Inr []\<rparr>"

definition unknown_values_sim :: sim where
  "unknown_values_sim = live_sim\<lparr>sim_values := Inr unknown_values\<rparr>"

definition failing_values_sim :: sim where
  "failing_values_sim = live_sim\<lparr>sim_values := Inl (OtherException ''timeout'')\<rparr>"

text \<open>Closing the session raises.\<close>

definition disconnect_fails_sim :: sim where
  "disconnect_fails_sim = live_sim\<lparr>sim_disconnect := Some (OtherException ''socket closed'')\<rparr>"

text \<open>A manager whose session is open and whose instance is set.\<close>

definition connected_world :: "bool world" where
  "connected_world = \<lparr>ib = True, is_connected_flag = True, ib_instance = True, calls = []\<rparr>"

section \<open>Basic facts\<close>

lemma IBConnector_is_connected_eq:
  "IBConnector_is_connected api w =
     (ib_isConnected api (ib w), w\<lparr>is_connected_flag := ib_isConnected api (ib w)\<rparr>)"
  by (simp add: IBConnector_is_connected_def)

lemma ConnectionManager_is_connected_eq:
  "ConnectionManager_is_connected api w =
     (ib_isConnected api (ib w), w\<lparr>is_connected_flag := ib_isConnected api (ib w)\<rparr>)"
  by (simp add: ConnectionManager_is_connected_def IBConnector_is_connected_eq)

subsection \<open>The tag filter\<close>

lemma collect_tags_keys:
  "fst ` set (collect_tags avs summary) =
     fst ` set summary \<union> {av_tag av | av. av \<in> set avs \<and> av_tag av \<in> set known_tags}"
proof (induction avs arbitrary: summary)
  case Nil
  then show ?case by simp
next
  case (Cons av avs)
  show ?case
  proof (cases "av_tag av \<in> set known_tags")
    case True
    then show ?thesis
      using Cons.IH [of "AList.update (av_tag av) (av_value av) summary"]
      by (auto simp: dom_update)
  next
    case False
    then show ?thesis using Cons.IH [of summary] by auto
  qed
qed

lemma collect_tags_unknown:
  "k \<notin> set known_tags \<Longrightarrow> map_of (collect_tags avs summary) k = map_of summary k"
  by (induction avs arbitrary: summary) (auto simp: update_conv')

lemma collect_tags_none:
  "\<forall>av \<in> set avs. av_tag av \<notin> set known_tags \<Longrightarrow> collect_tags avs summary = summary"
  by (induction avs arbitrary: summary) auto

lemma length_update:
  "length (AList.update k v al) = (if k \<in> fst ` set al then length al else Suc (length al))"
  by (induction al) auto

lemma collect_tags_length_mono: "length summary \<le> length (collect_tags avs summary)"
proof (induction avs arbitrary: summary)
  case Nil
  then show ?case by simp
next
  case (Cons av avs)
  have "length summary \<le> length (AList.update (av_tag av) (av_value av) summary)"
    by (simp add: length_update)
  then show ?case
    using Cons.IH [of "AList.update (av_tag av) (av_value av) summary"] Cons.IH [of summary]
    by (auto intro: order_trans)
qed

lemma collect_tags_length_grows:
  "av \<in> set avs \<Longrightarrow> av_tag av \<in> set known_tags \<Longrightarrow> av_tag av \<notin> fst ` set summary
     \<Longrightarrow> length summary < length (collect_tags avs summary)"
proof (induction avs arbitrary: summary)
  case Nil
  then show ?case by simp
next
  case (Cons a avs)
  show ?case
  proof (cases "av_tag a \<in> set known_tags")
    case False
    with Cons.prems have "av \<in> set avs" by auto
    with Cons.IH [of summary] Cons.prems False show ?thesis by simp
  next
    case known: True
    let ?s = "AList.update (av_tag a) (av_value a) summary"
    show ?thesis
    proof (cases "av_tag a \<in> fst ` set summary")
      case False
      then have "length ?s = Suc (length summary)" by (simp add: length_update)
      moreover have "length ?s \<le> length (collect_tags avs ?s)"
        by (rule collect_tags_length_mono)
      ultimately show ?thesis using known by simp
    next
      case True
      then have len: "length ?s = length summary" by (simp add: length_update)
      from True Cons.prems have "av \<noteq> a" by auto
      with Cons.prems have "av \<in> set avs" by auto
      moreover from True Cons.prems have "av_tag av \<noteq> av_tag a" by metis
      with Cons.prems have "av_tag av \<notin> fst ` set ?s"
        by (simp add: dom_update)
      ultimately have "length ?s < length (collect_tags avs ?s)"
        using Cons.IH [of ?s] Cons.prems by simp
      then show ?thesis using known len by simp
    qed
  qed
qed

lemma live_check_fallback_keys:
  "fst ` set (live_check_fallback summary) =
     fst ` set summary \<union> {''NetLiquidation'', ''TotalCashValue'', ''Note''}"
  by (auto simp: live_check_fallback_def Let_def dom_update)

lemma live_check_fallback_AccountCode:
  "map_of (live_check_fallback summary) ''AccountCode'' = map_of summary ''AccountCode''"
  by (simp add: live_check_fallback_def Let_def update_conv')

lemma account_summary_live_AccountCode:
  "account_summary_live api acct w = (Inr d, w') \<Longrightarrow> map_of d ''AccountCode'' = Some acct"
  by (auto simp: account_summary_live_def Let_def live_check_fallback_AccountCode
        collect_tags_unknown known_tags_def split: prod.splits sum.splits if_splits)

lemma get_account_summary_returns:
  "\<exists>d w'. get_account_summary api acct w = (Inr d, w') \<and> map_of d ''AccountCode'' = Some acct"
proof (cases "\<not> ib_isConnected api (ib w) \<or> \<not> ib_instance w")
  case True
  then show ?thesis
    by (auto simp: get_account_summary_def ConnectionManager_is_connected_eq)
next
  case False
  obtain r w2 where live: "account_summary_live api acct
      (w\<lparr>is_connected_flag := ib_isConnected api (ib w)\<rparr>) = (r, w2)"
    by (cases "account_summary_live api acct (w\<lparr>is_connected_flag := ib_isConnected api (ib w)\<rparr>)")
  show ?thesis
  proof (cases r)
    case (Inl e)
    with False live show ?thesis
      by (simp add: get_account_summary_def ConnectionManager_is_connected_eq)
  next
    case (Inr d)
    with live have "map_of d ''AccountCode'' = Some acct"
      by (simp add: account_summary_live_AccountCode)
    with False live Inr show ?thesis
      by (simp add: get_account_summary_def ConnectionManager_is_connected_eq)
  qed
qed

lemma collect_tags_values:
  "map_of (collect_tags avs summary) k = Some v \<Longrightarrow>
     map_of summary k = Some v \<or> (\<exists>av \<in> set avs. av_tag av = k \<and> av_value av = v)"
proof (induction avs arbitrary: summary)
  case Nil
  then show ?case by simp
next
  case (Cons a avs)
  show ?case
  proof (cases "av_tag a \<in> set known_tags")
    case False
    with Cons.prems Cons.IH [of summary] show ?thesis by auto
  next
    case True
    with Cons.prems
    have "map_of (collect_tags avs (AList.update (av_tag a) (av_value a) summary)) k = Some v"
      by simp
    from Cons.IH [OF this] show ?thesis
      by (auto simp: update_conv' split: if_splits)
  qed
qed

lemma get_account_summary_live:
  assumes "ib_isConnected api (ib w)" "ib_instance w"
    and "ib_accountValues api acct (ib w) = (Inr avs, s')" "avs \<noteq> []"
  shows "get_account_summary api acct w =
     (Inr (let summary = collect_tags avs
                 [(''AccountCode'', acct), (''ConnectionStatus'', ''Connected - Live Data'')]
           in if length summary \<le> 2 then live_check_fallback summary else summary),
      w\<lparr>is_connected_flag := True, ib := s', calls := calls w @ [AccountValues]\<rparr>)"
  using assms
  by (simp add: get_account_summary_def ConnectionManager_is_connected_eq
        account_summary_live_def Let_def)




lemma live_check_fallback_initial:
  "live_check_fallback
       [(''AccountCode'', acct), (''ConnectionStatus'', ''Connected - Live Data'')] =
     [(''AccountCode'', acct), (''ConnectionStatus'', ''Connected - Live Data''),
      (''NetLiquidation'', ''N/A (Live-Check)''),
      (''TotalCashValue'', ''N/A (Live-Check)''),
      (''Note'', ''Some values might be missing from live feed for this account.'')]"
  by (simp add: live_check_fallback_def dict_get_def Let_def)

lemma known_tags_not_initial:
  "k \<in> set known_tags \<Longrightarrow> k \<noteq> ''AccountCode'' \<and> k \<noteq> ''ConnectionStatus''"
  by (auto simp: known_tags_def)

lemma collect_tags_initial_grows:
  assumes "av \<in> set avs" "av_tag av \<in> set known_tags"
  shows "2 < length (collect_tags avs
           [(''AccountCode'', acct), (''ConnectionStatus'', ''Connected - Live Data'')])"
proof -
  from known_tags_not_initial [OF assms(2)]
  have "av_tag av \<notin> fst ` set [(''AccountCode'', acct),
          (''ConnectionStatus'', ''Connected - Live Data'')]"
    by simp
  from collect_tags_length_grows [OF assms this] show ?thesis by simp
qed

lemma collect_tags_initial_values:
  assumes "k \<in> set known_tags"
    and "map_of (collect_tags avs
           [(''AccountCode'', acct), (''ConnectionStatus'', ''Connected - Live Data'')]) k = Some v"
  shows "\<exists>av \<in> set avs. av_tag av = k \<and> av_value av = v"
proof -
  from known_tags_not_initial [OF assms(1)]
  have "map_of [(''AccountCode'', acct), (''ConnectionStatus'', ''Connected - Live Data'')] k
      = None"
    by simp
  with collect_tags_values [OF assms(2)] show ?thesis by simp
qed

lemma sim_simps:
  "ib_isConnected (sim_api cfg) s = s"
  "ib_accountValues (sim_api cfg) a s = (sim_values cfg, s)"
  "ib_sleep (sim_api cfg) s = (Inr (), s)"
  "ib_ticker (sim_api cfg) con s = (sim_ticker cfg, s)"
  by (simp_all add: sim_api_def)

lemma get_ib_instance_open:
  assumes "ib_isConnected api (ib w)"
  shows "get_ib_instance api inp w =
     (Inr (), w\<lparr>is_connected_flag := True, ib_instance := True\<rparr>)"
  using assms
  by (cases "ib_instance w")
     (simp_all add: get_ib_instance_def IBConnector_is_connected_eq Let_def)

subsection \<open>Session acquisition, handlers and the final block\<close>

lemma get_account_summary_Inr:
  obtains d w' where "get_account_summary api acct w = (Inr d, w')"
    "map_of d ''AccountCode'' = Some acct"
  using get_account_summary_returns [of api acct w] by blast

lemma get_account_summary_unset:
  assumes "\<not> ib_instance w"
  shows "get_account_summary api acct w =
     (Inr [(''AccountCode'', acct),
           (''NetLiquidation'', ''1000000 (Mock)''),
           (''TotalCashValue'', ''1000000 (Mock)''),
           (''RealizedPnL'', ''0 (Mock)''),
           (''UnrealizedPnL'', ''0 (Mock)''),
           (''ConnectionStatus'', ''Disconnected - Mock Data'')],
      w\<lparr>is_connected_flag := ib_isConnected api (ib w)\<rparr>)"
  using assms by (simp add: get_account_summary_def ConnectionManager_is_connected_eq)

lemma IBConnector_connect_raises:
  "IBConnector_connect api inp w = (Inl e, w') \<Longrightarrow>
     is_ConnectionError e \<and> ib_instance w' = ib_instance w"
  by (auto simp: IBConnector_connect_def split: if_splits prod.splits sum.splits)

lemma get_ib_instance_raises:
  assumes "get_ib_instance api inp w = (Inl e, w')" "\<not> ib_instance w"
  shows "is_ConnectionError e \<and> \<not> ib_instance w'"
proof (cases "ib_isConnected api (ib w)")
  case True
  from get_ib_instance_open [OF True, of inp] assms show ?thesis by simp
next
  case False
  obtain r w2 where c: "IBConnector_connect api inp (w\<lparr>is_connected_flag := False\<rparr>) = (r, w2)"
    by (cases "IBConnector_connect api inp (w\<lparr>is_connected_flag := False\<rparr>)")
  show ?thesis
  proof (cases r)
    case (Inl e')
    with c False assms have "e' = e" "w2 = w'"
      by (simp_all add: get_ib_instance_def IBConnector_is_connected_eq)
    with IBConnector_connect_raises [of api inp "w\<lparr>is_connected_flag := False\<rparr>" e' w2]
      c Inl assms(2)
    show ?thesis by simp
  next
    case (Inr u)
    with c False assms show ?thesis
      by (simp add: get_ib_instance_def IBConnector_is_connected_eq Let_def split: if_splits)
  qed
qed

lemma stage_one_finally_closed:
  "\<not> ib_isConnected api (ib w) \<Longrightarrow>
     stage_one_finally api res w = (Inr res, w\<lparr>is_connected_flag := False\<rparr>)"
  by (simp add: stage_one_finally_def ConnectionManager_is_connected_eq)

lemma stage_one_finally_result:
  "stage_one_finally api res w = (Inr r, w') \<Longrightarrow> r = res"
  by (auto simp: stage_one_finally_def ConnectionManager_is_connected_eq
        split: if_splits prod.splits sum.splits)

text \<open>
  The one way an exception leaves \<open>initialize_stage_one\<close>: the session is
  open when the final block runs and the client's \<open>disconnect\<close> raises.
\<close>

lemma stage_one_finally_raises:
  assumes "ib_isConnected api (ib w)" "ib_disconnect api (ib w) = (Inl e, s')"
  shows "fst (stage_one_finally api res w) = Inl e"
  using assms
  by (simp add: stage_one_finally_def ConnectionManager_is_connected_eq
        ConnectionManager_disconnect_def IBConnector_is_connected_eq
        IBConnector_disconnect_def)

lemma ConnectionManager_disconnect_returns:
  assumes "\<forall>s. fst (ib_disconnect api s) = Inr ()"
  shows "\<exists>w'. ConnectionManager_disconnect api w = (Inr (), w')"
proof -
  obtain r s' where d: "ib_disconnect api (ib w) = (r, s')"
    by (cases "ib_disconnect api (ib w)")
  with assms have "r = Inr ()" by (metis fst_conv)
  with d show ?thesis
    by (simp add: ConnectionManager_disconnect_def IBConnector_is_connected_eq
          IBConnector_disconnect_def)
qed

lemma stage_one_finally_returns:
  assumes "\<forall>s. fst (ib_disconnect api s) = Inr ()"
  shows "\<exists>w'. stage_one_finally api res w = (Inr res, w')"
proof (cases "ib_isConnected api (ib w)")
  case False
  then show ?thesis by (simp add: stage_one_finally_closed)
next
  case True
  obtain w' where "ConnectionManager_disconnect api (w\<lparr>is_connected_flag := True\<rparr>)
      = (Inr (), w')"
    using ConnectionManager_disconnect_returns [OF assms] by blast
  with True show ?thesis
    by (simp add: stage_one_finally_def ConnectionManager_is_connected_eq)
qed

lemma stage_one_except_result:
  "\<exists>res1 w1. stage_one_except api inp e res w = (Inr (), res1, w1) \<and>
     error res1 = Some ((if is_ConnectionError e then ''Stage One Connection Error: ''
                         else ''An unexpected error occurred in Stage One: '') @ exn_text e) \<and>
     market_data res1 = market_data res \<and>
     map_of (account_summary res1) ''AccountCode'' = Some (account_code inp) \<and>
     (is_ConnectionError e \<longrightarrow> \<not> connection_status res1)"
proof -
  obtain d w' where "get_account_summary api (account_code inp) w = (Inr d, w')"
    "map_of d ''AccountCode'' = Some (account_code inp)"
    by (rule get_account_summary_Inr)
  then show ?thesis
    by (simp add: stage_one_except_def ConnectionManager_is_connected_eq Let_def)
qed

lemma initialize_stage_one_normal:
  "stage_one_try api inp initial_results (ConnectionManager_init s0) = (Inr u, res, w) \<Longrightarrow>
     initialize_stage_one api inp s0 = stage_one_finally api res w"
  by (simp add: initialize_stage_one_def)

lemma initialize_stage_one_raised:
  "stage_one_try api inp initial_results (ConnectionManager_init s0) = (Inl e, res, w) \<Longrightarrow>
   stage_one_except api inp e res w = (out, res1, w1) \<Longrightarrow>
     initialize_stage_one api inp s0 = stage_one_finally api res1 w1"
  by (simp add: initialize_stage_one_def)

lemma sim_ops:
  "ib_connect (sim_api cfg) h p c s =
     (case sim_connect cfg of None \<Rightarrow> (Inr (), True) | Some e \<Rightarrow> (Inl e, False))"
  "ib_disconnect (sim_api cfg) s =
     (case sim_disconnect cfg of None \<Rightarrow> (Inr (), False) | Some e \<Rightarrow> (Inl e, s))"
  "ib_reqMktData (sim_api cfg) con s =
     (case sim_request cfg of None \<Rightarrow> (Inr (), s \<and> \<not> sim_drop cfg)
      | Some e \<Rightarrow> (Inl e, s \<and> \<not> sim_drop cfg))"
  "ib_cancelMktData (sim_api cfg) con s =
     (case sim_cancel cfg of None \<Rightarrow> (Inr (), s) | Some e \<Rightarrow> (Inl e, s))"
  by (simp_all add: sim_api_def)

lemma stage_one_try_failure:
  "get_ib_instance api inp w = (Inl e, w1) \<Longrightarrow> stage_one_try api inp res w = (Inl e, res, w1)"
  by (simp add: stage_one_try_def stage_one_setup_def)

lemma stage_one_except_unset:
  assumes "is_ConnectionError e" "\<not> ib_instance w"
  shows "stage_one_except api inp e res w =
     (Inr (),
      res\<lparr>error := Some (''Stage One Connection Error: '' @ exn_text e),
          account_summary :=
            [(''AccountCode'', account_code inp),
             (''NetLiquidation'', ''1000000 (Mock)''),
             (''TotalCashValue'', ''1000000 (Mock)''),
             (''RealizedPnL'', ''0 (Mock)''),
             (''UnrealizedPnL'', ''0 (Mock)''),
             (''ConnectionStatus'', ''Disconnected - Mock Data'')],
          connection_status := False\<rparr>,
      w\<lparr>is_connected_flag := ib_isConnected api (ib w)\<rparr>)"
  using assms by (simp add: stage_one_except_def get_account_summary_unset)

lemma initialize_stage_one_failure:
  assumes "get_ib_instance api inp (ConnectionManager_init s0) = (Inl e, w1)"
  shows "initialize_stage_one api inp s0 =
     stage_one_finally api
       (initial_results\<lparr>error := Some (''Stage One Connection Error: '' @ exn_text e),
          account_summary :=
            [(''AccountCode'', account_code inp),
             (''NetLiquidation'', ''1000000 (Mock)''),
             (''TotalCashValue'', ''1000000 (Mock)''),
             (''RealizedPnL'', ''0 (Mock)''),
             (''UnrealizedPnL'', ''0 (Mock)''),
             (''ConnectionStatus'', ''Disconnected - Mock Data'')],
          connection_status := False\<rparr>)
       (w1\<lparr>is_connected_flag := ib_isConnected api (ib w1)\<rparr>)"
proof -
  have "\<not> ib_instance (ConnectionManager_init s0)" by (simp add: ConnectionManager_init_def)
  from get_ib_instance_raises [OF assms this]
  have e: "is_ConnectionError e" and u: "\<not> ib_instance w1" by simp_all
  from stage_one_try_failure [OF assms, of initial_results]
    stage_one_except_unset [OF e u, of api inp initial_results]
  show ?thesis by (rule initialize_stage_one_raised)
qed

lemma refused_get_ib_instance:
  "get_ib_instance (sim_api refused_sim) default_input (ConnectionManager_init False) =
     (Inl (ConnectionError ''Connection refused by IB Gateway/TWS on 127.0.0.1:7497''),
      \<lparr>ib = False, is_connected_flag = False, ib_instance = False, calls = [Connect]\<rparr>)"
  by (simp add: get_ib_instance_def IBConnector_is_connected_eq IBConnector_connect_def
        ConnectionManager_init_def sim_simps sim_ops refused_sim_def live_sim_def
        default_input_def str_int_def)

lemma refused_run:
  "snd (initialize_stage_one (sim_api refused_sim) default_input False) =
     \<lparr>ib = False, is_connected_flag = False, ib_instance = False, calls = [Connect]\<rparr>
   \<and> \<not> isl (fst (initialize_stage_one (sim_api refused_sim) default_input False))"
  by (simp add: initialize_stage_one_failure [OF refused_get_ib_instance]
        stage_one_finally_closed sim_simps)

subsection \<open>The calls each step makes\<close>

lemma IBConnector_connect_calls:
  "calls (snd (IBConnector_connect api inp w)) =
     (if ib_isConnected api (ib w) then calls w else calls w @ [Connect])"
  by (simp add: IBConnector_connect_def split: prod.splits sum.splits)

lemma get_ib_instance_calls:
  "calls (snd (get_ib_instance api inp w)) =
     (if ib_isConnected api (ib w) then calls w else calls w @ [Connect])"
proof (cases "ib_isConnected api (ib w)")
  case True
  then show ?thesis by (simp add: get_ib_instance_open)
next
  case False
  obtain r w2 where c: "IBConnector_connect api inp (w\<lparr>is_connected_flag := False\<rparr>) = (r, w2)"
    by (cases "IBConnector_connect api inp (w\<lparr>is_connected_flag := False\<rparr>)")
  with IBConnector_connect_calls [of api inp "w\<lparr>is_connected_flag := False\<rparr>"] False
  have w2: "calls w2 = calls w @ [Connect]" by simp
  from c False w2 show ?thesis
    by (cases r) (simp_all add: get_ib_instance_def IBConnector_is_connected_eq Let_def)
qed

lemma account_summary_live_calls:
  "calls (snd (account_summary_live api acct w)) = calls w @ [AccountValues]"
  by (simp add: account_summary_live_def Let_def split: prod.splits sum.splits)

lemma get_account_summary_calls:
  "calls (snd (get_account_summary api acct w)) =
     (if ib_isConnected api (ib w) \<and> ib_instance w then calls w @ [AccountValues] else calls w)"
proof (cases "ib_isConnected api (ib w) \<and> ib_instance w")
  case False
  then show ?thesis
    by (auto simp: get_account_summary_def ConnectionManager_is_connected_eq)
next
  case True
  obtain r w2 where l: "account_summary_live api acct (w\<lparr>is_connected_flag := True\<rparr>) = (r, w2)"
    by (cases "account_summary_live api acct (w\<lparr>is_connected_flag := True\<rparr>)")
  with account_summary_live_calls [of api acct "w\<lparr>is_connected_flag := True\<rparr>"]
  have "calls w2 = calls w @ [AccountValues]" by simp
  with True l show ?thesis
    by (cases r) (simp_all add: get_account_summary_def ConnectionManager_is_connected_eq)
qed

lemma get_account_summary_count:
  "x \<noteq> AccountValues \<Longrightarrow>
     count_list (calls (snd (get_account_summary api acct w))) x = count_list (calls w) x"
  by (simp add: get_account_summary_calls)

lemma get_ib_instance_count:
  "x \<noteq> Connect \<Longrightarrow>
     count_list (calls (snd (get_ib_instance api inp w))) x = count_list (calls w) x"
  by (simp add: get_ib_instance_calls)

lemma ConnectionManager_is_connected_calls:
  "calls (snd (ConnectionManager_is_connected api w)) = calls w"
  by (simp add: ConnectionManager_is_connected_eq)

lemma stage_one_setup_count:
  assumes "x \<noteq> Connect" "x \<noteq> AccountValues"
  shows "count_list (calls (snd (snd (stage_one_setup api inp res w)))) x = count_list (calls w) x"
  using assms
  by (simp add: stage_one_setup_def case_prod_beta Let_def
        ConnectionManager_is_connected_calls get_account_summary_count get_ib_instance_count
        split: sum.splits)

lemma stage_one_except_count:
  assumes "x \<noteq> AccountValues"
  shows "count_list (calls (snd (snd (stage_one_except api inp e res w)))) x = count_list (calls w) x"
  using assms
  by (simp add: stage_one_except_def case_prod_beta Let_def
        ConnectionManager_is_connected_calls get_account_summary_count
        split: sum.splits)

lemma IBConnector_disconnect_count:
  "x \<noteq> Disconnect \<Longrightarrow>
     count_list (calls (snd (IBConnector_disconnect api w))) x = count_list (calls w) x"
  by (simp add: IBConnector_disconnect_def split: prod.splits sum.splits)

lemma IBConnector_is_connected_calls:
  "calls (snd (IBConnector_is_connected api w)) = calls w"
  by (simp add: IBConnector_is_connected_eq)

lemma ConnectionManager_disconnect_count:
  assumes "x \<noteq> Disconnect" "x \<noteq> ManagerDisconnect"
  shows "count_list (calls (snd (ConnectionManager_disconnect api w))) x = count_list (calls w) x"
  using assms
  by (simp add: ConnectionManager_disconnect_def case_prod_beta
        IBConnector_is_connected_calls IBConnector_disconnect_count
        split: sum.splits)

lemma stage_one_finally_count:
  assumes "x \<noteq> Disconnect" "x \<noteq> ManagerDisconnect"
  shows "count_list (calls (snd (stage_one_finally api res w))) x = count_list (calls w) x"
  using assms
  by (simp add: stage_one_finally_def case_prod_beta
        ConnectionManager_is_connected_calls ConnectionManager_disconnect_count
        split: sum.splits)

lemma fetch_market_data_count:
  "count_list (calls (snd (fetch_market_data api sy con w))) ReqMktData
     = Suc (count_list (calls w) ReqMktData)"
  "count_list (calls (snd (fetch_market_data api sy con w))) CancelMktData
     = count_list (calls w) CancelMktData"
  by (simp_all add: fetch_market_data_def request_snapshot_def split: prod.splits sum.splits)

lemma market_data_step_count:
  "count_list (calls (snd (snd (market_data_step api sy con res w)))) ReqMktData
     = Suc (count_list (calls w) ReqMktData)"
  "count_list (calls (snd (snd (market_data_step api sy con res w)))) CancelMktData
     = count_list (calls w) CancelMktData +
       (if ib_isConnected api (ib (snd (fetch_market_data api sy con w))) then 1 else 0)"
  by (simp_all add: market_data_step_def case_prod_beta fetch_market_data_count
        split: sum.splits)

lemma initialize_stage_one_count:
  assumes "x \<noteq> AccountValues" "x \<noteq> Disconnect" "x \<noteq> ManagerDisconnect"
  shows "count_list (calls (snd (initialize_stage_one api inp s0))) x =
     count_list (calls (snd (snd (stage_one_try api inp initial_results
       (ConnectionManager_init s0))))) x"
  using assms
  by (simp add: initialize_stage_one_def case_prod_beta stage_one_finally_count
        stage_one_except_count split: sum.splits)

lemma stage_one_try_Continue:
  "stage_one_setup api inp res w = (Continue, res1, w1) \<Longrightarrow>
     stage_one_try api inp res w =
       market_data_step api (symbol inp) (Stock (symbol inp) (exchange inp) (currency inp)) res1 w1"
  by (simp add: stage_one_try_def)

lemma stage_one_try_stopped:
  "fst (stage_one_setup api inp res w) \<noteq> Continue \<Longrightarrow>
     snd (snd (stage_one_try api inp res w)) = snd (snd (stage_one_setup api inp res w))"
  by (simp add: stage_one_try_def case_prod_beta split: flow.splits)

lemma setup_no_market_calls:
  assumes "x \<noteq> Connect" "x \<noteq> AccountValues"
  shows "count_list (calls (snd (snd (stage_one_setup api inp res (ConnectionManager_init s0))))) x = 0"
  using stage_one_setup_count [OF assms, of api inp res "ConnectionManager_init s0"]
  by (simp add: ConnectionManager_init_def)

lemma market_step_counts:
  assumes "stage_one_setup api inp initial_results (ConnectionManager_init s0) = (Continue, res, w3)"
  shows "count_list (calls (snd (initialize_stage_one api inp s0))) ReqMktData = 1"
    and "count_list (calls (snd (initialize_stage_one api inp s0))) CancelMktData =
      (if ib_isConnected api (ib (snd (fetch_market_data api (symbol inp)
            (Stock (symbol inp) (exchange inp) (currency inp)) w3))) then 1 else 0)"
proof -
  have r0: "count_list (calls w3) ReqMktData = 0"
    using setup_no_market_calls [of ReqMktData api inp initial_results s0] assms by simp
  have c0: "count_list (calls w3) CancelMktData = 0"
    using setup_no_market_calls [of CancelMktData api inp initial_results s0] assms by simp
  show "count_list (calls (snd (initialize_stage_one api inp s0))) ReqMktData = 1"
    by (simp add: initialize_stage_one_count stage_one_try_Continue [OF assms]
          market_data_step_count r0)
  show "count_list (calls (snd (initialize_stage_one api inp s0))) CancelMktData =
      (if ib_isConnected api (ib (snd (fetch_market_data api (symbol inp)
            (Stock (symbol inp) (exchange inp) (currency inp)) w3))) then 1 else 0)"
    by (simp add: initialize_stage_one_count stage_one_try_Continue [OF assms]
          market_data_step_count c0)
qed

lemma no_market_step:
  assumes "fst (stage_one_setup api inp initial_results (ConnectionManager_init s0)) \<noteq> Continue"
  shows "count_list (calls (snd (initialize_stage_one api inp s0))) ReqMktData = 0"
  by (simp add: initialize_stage_one_count stage_one_try_stopped [OF assms]
        setup_no_market_calls)

lemma sim_get_ib_instance:
  assumes "sim_connect cfg = None"
  shows "get_ib_instance (sim_api cfg) inp (ConnectionManager_init False) =
     (Inr (), \<lparr>ib = True, is_connected_flag = True, ib_instance = True, calls = [Connect]\<rparr>)"
  using assms
  by (simp add: get_ib_instance_def IBConnector_is_connected_eq IBConnector_connect_def
        ConnectionManager_init_def sim_simps sim_ops)

lemma collect_sample_values:
  "collect_tags sample_values
     [(''AccountCode'', acct), (''ConnectionStatus'', ''Connected - Live Data'')] =
   [(''AccountCode'', acct), (''ConnectionStatus'', ''Connected - Live Data''),
    (''NetLiquidation'', ''250000''), (''CashBalance'', ''40000'')]"
  by (simp add: sample_values_def known_tags_def)

lemma sim_get_account_summary:
  assumes "sim_values cfg = Inr sample_values"
  shows "get_account_summary (sim_api cfg) acct
       \<lparr>ib = True, is_connected_flag = True, ib_instance = True, calls = cs\<rparr> =
     (Inr [(''AccountCode'', acct), (''ConnectionStatus'', ''Connected - Live Data''),
           (''NetLiquidation'', ''250000''), (''CashBalance'', ''40000'')],
      \<lparr>ib = True, is_connected_flag = True, ib_instance = True, calls = cs @ [AccountValues]\<rparr>)"
proof -
  have "sample_values \<noteq> []" by (simp add: sample_values_def)
  from get_account_summary_live [of "sim_api cfg"
      "\<lparr>ib = True, is_connected_flag = True, ib_instance = True, calls = cs\<rparr>"
      acct sample_values True, OF _ _ _ this] assms
  show ?thesis by (simp add: sim_simps collect_sample_values)
qed

lemma sim_setup:
  assumes "sim_connect cfg = None" "sim_values cfg = Inr sample_values"
  shows "stage_one_setup (sim_api cfg) inp initial_results (ConnectionManager_init False) =
     (Continue,
      initial_results\<lparr>connection_status := True,
        account_summary :=
          [(''AccountCode'', account_code inp), (''ConnectionStatus'', ''Connected - Live Data''),
           (''NetLiquidation'', ''250000''), (''CashBalance'', ''40000'')]\<rparr>,
      \<lparr>ib = True, is_connected_flag = True, ib_instance = True,
        calls = [Connect, AccountValues]\<rparr>)"
  by (simp add: stage_one_setup_def sim_get_ib_instance [OF assms(1)]
        ConnectionManager_is_connected_eq sim_simps sim_get_account_summary [OF assms(2)])

lemma sim_fetch_ib:
  "ib (snd (fetch_market_data (sim_api cfg) sy con w)) = (ib w \<and> \<not> sim_drop cfg)"
  by (simp add: fetch_market_data_def request_snapshot_def sim_ops sim_simps
        split: option.splits sum.splits)

lemma count_one_member: "count_list xs x = 1 \<Longrightarrow> x \<in> set xs"
  by (metis count_list_0_iff zero_neq_one)

subsection \<open>The market-data step\<close>

lemma snapshot_no_price:
  assumes "\<forall>t. tko = Some t \<longrightarrow> \<not> truthy (tk_last t) \<and> \<not> truthy (tk_close t)"
  shows "snapshot sy tko =
     MdText (''No market data received for '' @ sy @ ''. Ticker: '' @ str_ticker tko)"
  using assms by (cases tko) (simp_all add: snapshot_def)

lemma fetch_market_data_snapshot:
  assumes "ib_reqMktData api con (ib w) = (Inr u1, s1)"
    and "ib_sleep api s1 = (Inr u2, s2)"
    and "ib_ticker api con s2 = (Inr tko, s3)"
  shows "fetch_market_data api sy con w =
     (snapshot sy tko, w\<lparr>ib := s3, calls := calls w @ [ReqMktData, Sleep, Ticker]\<rparr>)"
  using assms by (simp add: fetch_market_data_def request_snapshot_def)

lemma market_data_step_results:
  "fst (snd (market_data_step api sy con res w)) =
     res\<lparr>market_data := fst (fetch_market_data api sy con w)\<rparr>"
  by (simp add: market_data_step_def case_prod_beta split: sum.splits)

lemma market_data_step_normal:
  assumes "ib_isConnected api (ib (snd (fetch_market_data api sy con w))) \<longrightarrow>
      fst (ib_cancelMktData api con (ib (snd (fetch_market_data api sy con w)))) = Inr ()"
  shows "fst (market_data_step api sy con res w) = Inr ()"
  using assms by (simp add: market_data_step_def case_prod_beta split: sum.splits)

lemma stage_one_setup_Continue:
  assumes "stage_one_setup api inp res0 w = (Continue, res, w3)"
  shows "connection_status res \<and> error res = error res0 \<and> market_data res = market_data res0 \<and>
     map_of (account_summary res) ''AccountCode'' = Some (account_code inp)"
proof -
  obtain r w1 where g: "get_ib_instance api inp w = (r, w1)"
    by (cases "get_ib_instance api inp w")
  show ?thesis
  proof (cases r)
    case (Inl e)
    with g assms show ?thesis by (simp add: stage_one_setup_def)
  next
    case (Inr u)
    show ?thesis
    proof (cases "ib_isConnected api (ib w1)")
      case False
      obtain d w2 where "get_account_summary api (account_code inp)
          (w1\<lparr>is_connected_flag := False\<rparr>) = (Inr d, w2)"
        by (rule get_account_summary_Inr)
      with g Inr False assms show ?thesis
        by (simp add: stage_one_setup_def ConnectionManager_is_connected_eq)
    next
      case True
      obtain d w2 where "get_account_summary api (account_code inp)
          (w1\<lparr>is_connected_flag := True\<rparr>) = (Inr d, w2)"
        "map_of d ''AccountCode'' = Some (account_code inp)"
        by (rule get_account_summary_Inr)
      with g Inr True assms show ?thesis
        by (auto simp: stage_one_setup_def ConnectionManager_is_connected_eq)
    qed
  qed
qed

lemma run_market_data:
  assumes su: "stage_one_setup api inp initial_results (ConnectionManager_init s0)
      = (Continue, res, w3)"
    and run: "initialize_stage_one api inp s0 = (Inr r, w_end)"
  shows "market_data r = fst (fetch_market_data api (symbol inp)
      (Stock (symbol inp) (exchange inp) (currency inp)) w3)"
proof -
  let ?con = "Stock (symbol inp) (exchange inp) (currency inp)"
  obtain out res' w4 where step: "market_data_step api (symbol inp) ?con res w3 = (out, res', w4)"
    by (cases "market_data_step api (symbol inp) ?con res w3")
  with market_data_step_results [of api "symbol inp" ?con res w3]
  have res': "res' = res\<lparr>market_data := fst (fetch_market_data api (symbol inp) ?con w3)\<rparr>"
    by simp
  from stage_one_try_Continue [OF su] step
  have t: "stage_one_try api inp initial_results (ConnectionManager_init s0) = (out, res', w4)"
    by simp
  show ?thesis
  proof (cases out)
    case (Inr u)
    with t run have "stage_one_finally api res' w4 = (Inr r, w_end)"
      by (simp add: initialize_stage_one_normal)
    then have "r = res'" by (rule stage_one_finally_result)
    with res' show ?thesis by simp
  next
    case (Inl e)
    obtain res1 w1 where x: "stage_one_except api inp e res' w4 = (Inr (), res1, w1)"
      and md: "market_data res1 = market_data res'"
      using stage_one_except_result [of api inp e res' w4] by blast
    from t Inl x run have "stage_one_finally api res1 w1 = (Inr r, w_end)"
      by (simp add: initialize_stage_one_raised)
    then have "r = res1" by (rule stage_one_finally_result)
    with md res' show ?thesis by simp
  qed
qed

lemma run_without_exception:
  assumes su: "stage_one_setup api inp initial_results (ConnectionManager_init s0)
      = (Continue, res, w3)"
    and ok: "fst (market_data_step api (symbol inp)
      (Stock (symbol inp) (exchange inp) (currency inp)) res w3) = Inr ()"
    and run: "initialize_stage_one api inp s0 = (Inr r, w_end)"
  shows "r = res\<lparr>market_data := fst (fetch_market_data api (symbol inp)
      (Stock (symbol inp) (exchange inp) (currency inp)) w3)\<rparr>"
proof -
  let ?con = "Stock (symbol inp) (exchange inp) (currency inp)"
  obtain out res' w4 where step: "market_data_step api (symbol inp) ?con res w3 = (out, res', w4)"
    by (cases "market_data_step api (symbol inp) ?con res w3")
  with market_data_step_results [of api "symbol inp" ?con res w3]
  have res': "res' = res\<lparr>market_data := fst (fetch_market_data api (symbol inp) ?con w3)\<rparr>"
    by simp
  from step ok have out: "out = Inr ()" by simp
  from stage_one_try_Continue [OF su] step out
  have "stage_one_try api inp initial_results (ConnectionManager_init s0) = (Inr (), res', w4)"
    by simp
  with run have "stage_one_finally api res' w4 = (Inr r, w_end)"
    by (simp add: initialize_stage_one_normal)
  then have "r = res'" by (rule stage_one_finally_result)
  with res' show ?thesis by simp
qed

lemma stage_one_returns:
  assumes "\<forall>s. fst (ib_disconnect api s) = Inr ()"
  shows "\<exists>r w. initialize_stage_one api inp s0 = (Inr r, w)"
proof -
  obtain out res w where t:
    "stage_one_try api inp initial_results (ConnectionManager_init s0) = (out, res, w)"
    by (cases "stage_one_try api inp initial_results (ConnectionManager_init s0)")
  show ?thesis
  proof (cases out)
    case (Inr u)
    with t have "initialize_stage_one api inp s0 = stage_one_finally api res w"
      by (simp add: initialize_stage_one_normal)
    with stage_one_finally_returns [OF assms, of res w] show ?thesis by auto
  next
    case (Inl e)
    obtain res1 w1 where x: "stage_one_except api inp e res w = (Inr (), res1, w1)"
      using stage_one_except_result [of api inp e res w] by blast
    from t Inl x have "initialize_stage_one api inp s0 = stage_one_finally api res1 w1"
      by (simp add: initialize_stage_one_raised)
    with stage_one_finally_returns [OF assms, of res1 w1] show ?thesis by auto
  qed
qed

lemma sim_step_cancel_raises:
  assumes "sim_cancel cfg = Some e" "ib w" "\<not> sim_drop cfg"
  shows "fst (market_data_step (sim_api cfg) sy con res w) = Inl e"
  using assms
  by (simp add: market_data_step_def case_prod_beta sim_ops sim_simps sim_fetch_ib)

lemma sim_get_account_summary_ib:
  "ib (snd (get_account_summary (sim_api cfg) acct w)) = ib w"
  by (simp add: get_account_summary_def ConnectionManager_is_connected_eq
        account_summary_live_def case_prod_beta Let_def sim_simps split: sum.splits)

lemma sim_setup_Continue:
  assumes "sim_connect cfg = None"
  shows "\<exists>res w3. stage_one_setup (sim_api cfg) inp initial_results (ConnectionManager_init False)
       = (Continue, res, w3) \<and> ib w3 \<and> error res = None"
proof -
  let ?w1 = "\<lparr>ib = True, is_connected_flag = True, ib_instance = True, calls = [Connect]\<rparr>"
  obtain d w3 where a: "get_account_summary (sim_api cfg) (account_code inp) ?w1 = (Inr d, w3)"
    by (rule get_account_summary_Inr)
  with sim_get_account_summary_ib [of cfg "account_code inp" ?w1] have "ib w3" by simp
  with a show ?thesis
    by (simp add: stage_one_setup_def sim_get_ib_instance [OF assms]
          ConnectionManager_is_connected_eq sim_simps initial_results_def)
qed

lemma sim_run_without_error:
  assumes "sim_connect cfg = None" "sim_cancel cfg = None" "sim_disconnect cfg = None"
  shows "\<not> isl (fst (initialize_stage_one (sim_api cfg) inp False)) \<and>
     error (projr (fst (initialize_stage_one (sim_api cfg) inp False))) = None"
proof -
  let ?con = "Stock (symbol inp) (exchange inp) (currency inp)"
  obtain res w3 where su: "stage_one_setup (sim_api cfg) inp initial_results
      (ConnectionManager_init False) = (Continue, res, w3)" and e: "error res = None"
    using sim_setup_Continue [OF assms(1), of inp] by blast
  have ok: "fst (market_data_step (sim_api cfg) (symbol inp) ?con res w3) = Inr ()"
    by (rule market_data_step_normal) (simp add: sim_ops assms(2))
  have quiet: "\<forall>s. fst (ib_disconnect (sim_api cfg) s) = Inr ()"
    by (simp add: sim_ops assms(3))
  from stage_one_returns [OF quiet, of inp False]
  obtain r w where run: "initialize_stage_one (sim_api cfg) inp False = (Inr r, w)"
    by (elim exE)
  from run_without_exception [OF su ok run] e have "error r = None" by simp
  with run show ?thesis by simp
qed

lemma sim_step_ib:
  "ib (snd (snd (market_data_step (sim_api cfg) sy con res w))) = (ib w \<and> \<not> sim_drop cfg)"
  by (simp add: market_data_step_def case_prod_beta sim_ops sim_simps sim_fetch_ib
        split: sum.splits option.splits)

lemma sim_disconnect_escapes:
  assumes "sim_connect cfg = None" "sim_values cfg = Inr sample_values"
    "sim_cancel cfg = None" "\<not> sim_drop cfg" "sim_disconnect cfg = Some e"
  shows "fst (initialize_stage_one (sim_api cfg) inp False) = Inl e"
proof -
  let ?con = "Stock (symbol inp) (exchange inp) (currency inp)"
  note su = sim_setup [OF assms(1,2), of inp]
  let ?res = "initial_results\<lparr>connection_status := True,
        account_summary :=
          [(''AccountCode'', account_code inp), (''ConnectionStatus'', ''Connected - Live Data''),
           (''NetLiquidation'', ''250000''), (''CashBalance'', ''40000'')]\<rparr>"
  let ?w3 = "\<lparr>ib = True, is_connected_flag = True, ib_instance = True,
        calls = [Connect, AccountValues]\<rparr>"
  obtain out res' w4 where step:
    "market_data_step (sim_api cfg) (symbol inp) ?con ?res ?w3 = (out, res', w4)"
    by (cases "market_data_step (sim_api cfg) (symbol inp) ?con ?res ?w3")
  have "fst (market_data_step (sim_api cfg) (symbol inp) ?con ?res ?w3) = Inr ()"
    by (rule market_data_step_normal) (simp add: sim_ops assms(3))
  with step have out: "out = Inr ()" by simp
  from sim_step_ib [of cfg "symbol inp" ?con ?res ?w3] step assms(4) have still: "ib w4" by simp
  from stage_one_try_Continue [OF su] step out
  have "stage_one_try (sim_api cfg) inp initial_results (ConnectionManager_init False)
      = (Inr (), res', w4)" by simp
  then have "initialize_stage_one (sim_api cfg) inp False = stage_one_finally (sim_api cfg) res' w4"
    by (rule initialize_stage_one_normal)
  moreover have "fst (stage_one_finally (sim_api cfg) res' w4) = Inl e"
    by (rule stage_one_finally_raises [where s' = "ib w4"])
       (simp_all add: sim_simps sim_ops still assms(5))
  ultimately show ?thesis by simp
qed

text \<open>
  A ticker whose prices are all NaN passes the source's check for data, since
  NaN is true: the mapping is stored, with NaN in every price.
\<close>

lemma nan_prices_give_mapping:
  "snapshot sy (Some nan_ticker) =
     MdDict \<lparr>md_symbol = sy, md_last_price = Some NaN, md_bid_price = Some NaN,
       md_ask_price = Some NaN, md_close_price = Some NaN, md_volume = Some NaN,
       md_timestamp = None\<rparr>"
  by (simp add: snapshot_def nan_ticker_def)

section \<open>The account summary\<close>

text \<open>
  C7. When the session is open and the live query returns a non-empty
  collection, \<open>get_account_summary\<close> returns a mapping and keeps only the five
  known tags: every key other than \<open>AccountCode\<close>, \<open>ConnectionStatus\<close> and
  \<open>Note\<close> is a known tag. If some returned value carries a known tag, the keys
  are exactly \<open>AccountCode\<close>, \<open>ConnectionStatus\<close> and the known tags that occur,
  each with a value from the query. If none does, the result is the fallback
  mapping: both keys, \<open>N/A (Live-Check)\<close> for \<open>NetLiquidation\<close> and
  \<open>TotalCashValue\<close>, and the \<open>Note\<close>.
\<close>

theorem get_account_summary_filters_tags:
  assumes "ib_isConnected api (ib w)" "ib_instance w"
    and "ib_accountValues api acct (ib w) = (Inr avs, s')" "avs \<noteq> []"
  shows "\<exists>d w'. get_account_summary api acct w = (Inr d, w') \<and>
     (\<forall>k \<in> fst ` set d.
        k \<notin> {''AccountCode'', ''ConnectionStatus'', ''Note''} \<longrightarrow> k \<in> set known_tags) \<and>
     ((\<exists>av \<in> set avs. av_tag av \<in> set known_tags) \<longrightarrow>
        fst ` set d = {''AccountCode'', ''ConnectionStatus''}
            \<union> {av_tag av | av. av \<in> set avs \<and> av_tag av \<in> set known_tags} \<and>
        (\<forall>k \<in> set known_tags. \<forall>v. map_of d k = Some v \<longrightarrow>
           (\<exists>av \<in> set avs. av_tag av = k \<and> av_value av = v))) \<and>
     ((\<forall>av \<in> set avs. av_tag av \<notin> set known_tags) \<longrightarrow>
        d = [(''AccountCode'', acct), (''ConnectionStatus'', ''Connected - Live Data''),
             (''NetLiquidation'', ''N/A (Live-Check)''),
             (''TotalCashValue'', ''N/A (Live-Check)''),
             (''Note'', ''Some values might be missing from live feed for this account.'')])"
proof (cases "\<exists>av \<in> set avs. av_tag av \<in> set known_tags")
  case True
  let ?summary = "collect_tags avs
      [(''AccountCode'', acct), (''ConnectionStatus'', ''Connected - Live Data'')]"
  from True obtain av where av: "av \<in> set avs" "av_tag av \<in> set known_tags" by blast
  have long: "\<not> length ?summary \<le> 2"
    using collect_tags_initial_grows [OF av, of acct] by simp
  have run: "get_account_summary api acct w =
      (Inr ?summary, w\<lparr>is_connected_flag := True, ib := s', calls := calls w @ [AccountValues]\<rparr>)"
    using get_account_summary_live [OF assms] long by (simp add: Let_def)
  have keys: "fst ` set ?summary = {''AccountCode'', ''ConnectionStatus''}
      \<union> {av_tag av | av. av \<in> set avs \<and> av_tag av \<in> set known_tags}"
    by (simp add: collect_tags_keys)
  have only: "\<forall>k \<in> fst ` set ?summary.
      k \<notin> {''AccountCode'', ''ConnectionStatus'', ''Note''} \<longrightarrow> k \<in> set known_tags"
    unfolding keys by blast
  have vals: "\<forall>k \<in> set known_tags. \<forall>v. map_of ?summary k = Some v \<longrightarrow>
      (\<exists>av \<in> set avs. av_tag av = k \<and> av_value av = v)"
    using collect_tags_initial_values by blast
  show ?thesis
    using run only keys vals True by blast
next
  case False
  then have none: "\<forall>av \<in> set avs. av_tag av \<notin> set known_tags" by blast
  let ?d = "[(''AccountCode'', acct), (''ConnectionStatus'', ''Connected - Live Data''),
             (''NetLiquidation'', ''N/A (Live-Check)''),
             (''TotalCashValue'', ''N/A (Live-Check)''),
             (''Note'', ''Some values might be missing from live feed for this account.'')]"
  have run: "get_account_summary api acct w =
      (Inr ?d, w\<lparr>is_connected_flag := True, ib := s', calls := calls w @ [AccountValues]\<rparr>)"
    using get_account_summary_live [OF assms]
    by (simp add: Let_def collect_tags_none [OF none] live_check_fallback_initial)
  have only: "\<forall>k \<in> fst ` set ?d.
      k \<notin> {''AccountCode'', ''ConnectionStatus'', ''Note''} \<longrightarrow> k \<in> set known_tags"
    by (simp add: known_tags_def)
  show ?thesis
    using run only False by blast
qed

theorem get_account_summary_filters_tags_witness:
  "\<exists>d w'. get_account_summary (sim_api unknown_values_sim) ''DU1234567'' connected_world
       = (Inr d, w') \<and>
     d = [(''AccountCode'', ''DU1234567''), (''ConnectionStatus'', ''Connected - Live Data''),
          (''NetLiquidation'', ''N/A (Live-Check)''),
          (''TotalCashValue'', ''N/A (Live-Check)''),
          (''Note'', ''Some values might be missing from live feed for this account.'')]"
proof -
  have h1: "ib_isConnected (sim_api unknown_values_sim) (ib connected_world)"
    by (simp add: sim_simps connected_world_def)
  have h2: "ib_instance connected_world" by (simp add: connected_world_def)
  have h3: "ib_accountValues (sim_api unknown_values_sim) ''DU1234567'' (ib connected_world)
      = (Inr unknown_values, True)"
    by (simp add: sim_simps connected_world_def unknown_values_sim_def live_sim_def)
  have h4: "unknown_values \<noteq> []" by (simp add: unknown_values_def)
  have h5: "\<forall>av \<in> set unknown_values. av_tag av \<notin> set known_tags"
    by (simp add: unknown_values_def known_tags_def)
  from get_account_summary_filters_tags [OF h1 h2 h3 h4]
  obtain d w' where
    run: "get_account_summary (sim_api unknown_values_sim) ''DU1234567'' connected_world
       = (Inr d, w')"
    and none: "(\<forall>av \<in> set unknown_values. av_tag av \<notin> set known_tags) \<longrightarrow>
      d = [(''AccountCode'', ''DU1234567''), (''ConnectionStatus'', ''Connected - Live Data''),
          (''NetLiquidation'', ''N/A (Live-Check)''),
          (''TotalCashValue'', ''N/A (Live-Check)''),
          (''Note'', ''Some values might be missing from live feed for this account.'')]"
    by (elim exE conjE)
  from none h5 have "d = [(''AccountCode'', ''DU1234567''), (''ConnectionStatus'', ''Connected - Live Data''),
          (''NetLiquidation'', ''N/A (Live-Check)''),
          (''TotalCashValue'', ''N/A (Live-Check)''),
          (''Note'', ''Some values might be missing from live feed for this account.'')]"
    by (rule mp)
  with run show ?thesis by (intro exI conjI)
qed

text \<open>
  C10. In every state of the manager and the client (session closed, open with
  values, open with an empty answer, open with the query raising),
  \<open>get_account_summary\<close> returns a mapping, never an exception, and the
  mapping's \<open>AccountCode\<close> is the account code passed in.
\<close>

theorem get_account_summary_never_raises:
  "\<exists>d w'. get_account_summary api acct w = (Inr d, w') \<and> map_of d ''AccountCode'' = Some acct"
  by (rule get_account_summary_returns)

theorem get_account_summary_never_raises_witness:
  "\<exists>d w'. get_account_summary (sim_api failing_values_sim) ''DU1234567'' connected_world
       = (Inr d, w') \<and> map_of d ''AccountCode'' = Some ''DU1234567''"
  using get_account_summary_never_raises
          [of "sim_api failing_values_sim" "''DU1234567''" connected_world] .

text \<open>
  C6 asks for the mock figures when the query answers with an empty collection.
  On that path the source returns only \<open>Error\<close> and \<open>AccountCode\<close>: the mapping
  has no \<open>NetLiquidation\<close> and no \<open>TotalCashValue\<close>, although the message printed
  there announces mock data and the two sibling paths return the figures.
\<close>

theorem empty_account_values_without_mock_figures:
  "fst (get_account_summary (sim_api no_values_sim) ''DU1234567'' connected_world)
     = Inr [(''Error'', ''No account values returned''), (''AccountCode'', ''DU1234567'')]"
  by (simp add: get_account_summary_def ConnectionManager_is_connected_eq
        account_summary_live_def sim_simps no_values_sim_def live_sim_def connected_world_def)

theorem empty_account_values_without_mock_figures_witness:
  "(case fst (get_account_summary (sim_api no_values_sim) ''DU1234567'' connected_world) of
      Inl e \<Rightarrow> False
    | Inr d \<Rightarrow> map_of d ''NetLiquidation'' = None \<and> map_of d ''TotalCashValue'' = None)"
  using empty_account_values_without_mock_figures by simp

section \<open>The connector\<close>

text \<open>
  C8. On a connector whose client reports the session open, \<open>connect\<close> takes
  the already-connected branch: it does not raise, calls nothing on the client
  and only sets the flag. A second \<open>connect\<close> does the same, and
  \<open>is_connected\<close> is true afterwards. \<open>get_ib_instance\<close> on an open session
  returns the instance without connecting, and a second call changes nothing.
\<close>

theorem connect_idempotent:
  assumes "ib_isConnected api (ib w)"
  shows "IBConnector_connect api inp w = (Inr (), w\<lparr>is_connected_flag := True\<rparr>) \<and>
     IBConnector_connect api inp (snd (IBConnector_connect api inp w))
       = (Inr (), w\<lparr>is_connected_flag := True\<rparr>) \<and>
     fst (IBConnector_is_connected api
            (snd (IBConnector_connect api inp (snd (IBConnector_connect api inp w))))) \<and>
     get_ib_instance api inp w = (Inr (), w\<lparr>is_connected_flag := True, ib_instance := True\<rparr>) \<and>
     get_ib_instance api inp (snd (get_ib_instance api inp w)) = get_ib_instance api inp w"
proof -
  have first: "IBConnector_connect api inp w = (Inr (), w\<lparr>is_connected_flag := True\<rparr>)"
    using assms by (simp add: IBConnector_connect_def)
  have second: "IBConnector_connect api inp (w\<lparr>is_connected_flag := True\<rparr>)
      = (Inr (), w\<lparr>is_connected_flag := True\<rparr>)"
    using assms by (simp add: IBConnector_connect_def)
  have still: "fst (IBConnector_is_connected api (w\<lparr>is_connected_flag := True\<rparr>))"
    using assms by (simp add: IBConnector_is_connected_eq)
  have acquire: "get_ib_instance api inp w =
      (Inr (), w\<lparr>is_connected_flag := True, ib_instance := True\<rparr>)"
    using assms by (rule get_ib_instance_open)
  have again: "get_ib_instance api inp (w\<lparr>is_connected_flag := True, ib_instance := True\<rparr>)
      = (Inr (), w\<lparr>is_connected_flag := True, ib_instance := True\<rparr>)"
    using assms get_ib_instance_open [of api "w\<lparr>is_connected_flag := True, ib_instance := True\<rparr>" inp]
    by simp
  show ?thesis
    by (simp add: first second still acquire again)
qed

theorem connect_idempotent_witness:
  "ib_isConnected (sim_api live_sim) (ib connected_world) \<and>
   IBConnector_connect (sim_api live_sim) default_input
     (snd (IBConnector_connect (sim_api live_sim) default_input connected_world))
       = (Inr (), connected_world\<lparr>is_connected_flag := True\<rparr>) \<and>
   fst (IBConnector_is_connected (sim_api live_sim)
          (snd (IBConnector_connect (sim_api live_sim) default_input
             (snd (IBConnector_connect (sim_api live_sim) default_input connected_world)))))"
proof -
  have h: "ib_isConnected (sim_api live_sim) (ib connected_world)"
    by (simp add: sim_simps connected_world_def)
  from connect_idempotent [OF h, of default_input] h show ?thesis by blast
qed

section \<open>The orchestrator\<close>

text \<open>
  C1, as the code has it. For every input and every client whose
  \<open>disconnect\<close> does not raise (session acquisition, the account query and
  the market-data calls may raise anything), \<open>initialize_stage_one\<close> returns
  a result record. When an exception leaves the body of the outer \<open>try\<close>,
  the record's \<open>error\<close> holds its text: after
  \<open>Stage One Connection Error: \<close> for a \<open>ConnectionError\<close>, after
  \<open>An unexpected error occurred in Stage One: \<close> for any other exception.
\<close>

theorem initialize_stage_one_returns:
  assumes "\<forall>s. fst (ib_disconnect api s) = Inr ()"
  shows "\<exists>r w. initialize_stage_one api inp s0 = (Inr r, w) \<and>
     (\<forall>e res w1.
        stage_one_try api inp initial_results (ConnectionManager_init s0) = (Inl e, res, w1)
        \<longrightarrow> error r = Some ((if is_ConnectionError e then ''Stage One Connection Error: ''
                else ''An unexpected error occurred in Stage One: '') @ exn_text e))"
proof -
  obtain out res w where t:
    "stage_one_try api inp initial_results (ConnectionManager_init s0) = (out, res, w)"
    by (cases "stage_one_try api inp initial_results (ConnectionManager_init s0)")
  show ?thesis
  proof (cases out)
    case (Inr u)
    with t have "initialize_stage_one api inp s0 = stage_one_finally api res w"
      by (simp add: initialize_stage_one_normal)
    moreover obtain w' where "stage_one_finally api res w = (Inr res, w')"
      using stage_one_finally_returns [OF assms] by blast
    ultimately show ?thesis using t Inr by simp
  next
    case (Inl e)
    obtain res1 w1 where x: "stage_one_except api inp e res w = (Inr (), res1, w1)"
      and err: "error res1 = Some ((if is_ConnectionError e then ''Stage One Connection Error: ''
                         else ''An unexpected error occurred in Stage One: '') @ exn_text e)"
      using stage_one_except_result [of api inp e res w] by blast
    from t Inl x have "initialize_stage_one api inp s0 = stage_one_finally api res1 w1"
      by (simp add: initialize_stage_one_raised)
    moreover obtain w' where "stage_one_finally api res1 w1 = (Inr res1, w')"
      using stage_one_finally_returns [OF assms] by blast
    ultimately show ?thesis using t Inl err by simp
  qed
qed

theorem initialize_stage_one_returns_witness:
  "(\<forall>s. fst (ib_disconnect (sim_api refused_sim) s) = Inr ()) \<and>
   (\<exists>r w. initialize_stage_one (sim_api refused_sim) default_input False = (Inr r, w) \<and>
      error r = Some
        ((if is_ConnectionError
               (ConnectionError ''Connection refused by IB Gateway/TWS on 127.0.0.1:7497'')
          then ''Stage One Connection Error: ''
          else ''An unexpected error occurred in Stage One: '') @
         exn_text (ConnectionError ''Connection refused by IB Gateway/TWS on 127.0.0.1:7497'')))"
proof -
  have h: "\<forall>s. fst (ib_disconnect (sim_api refused_sim) s) = Inr ()"
    by (simp add: sim_ops refused_sim_def live_sim_def)
  from initialize_stage_one_returns [OF h, of default_input False]
  obtain r w where run: "initialize_stage_one (sim_api refused_sim) default_input False = (Inr r, w)"
    and rec: "\<forall>e res w1.
        stage_one_try (sim_api refused_sim) default_input initial_results
          (ConnectionManager_init False) = (Inl e, res, w1)
        \<longrightarrow> error r = Some ((if is_ConnectionError e then ''Stage One Connection Error: ''
                else ''An unexpected error occurred in Stage One: '') @ exn_text e)"
    by (elim exE conjE)
  note t = stage_one_try_failure [OF refused_get_ib_instance, of initial_results]
  note err = rec [rule_format, OF t]
  show ?thesis
  proof (intro conjI exI)
    show "\<forall>s. fst (ib_disconnect (sim_api refused_sim) s) = Inr ()" by (rule h)
    show "initialize_stage_one (sim_api refused_sim) default_input False = (Inr r, w)"
      by (rule run)
    show "error r = Some
        ((if is_ConnectionError
               (ConnectionError ''Connection refused by IB Gateway/TWS on 127.0.0.1:7497'')
          then ''Stage One Connection Error: ''
          else ''An unexpected error occurred in Stage One: '') @
         exn_text (ConnectionError ''Connection refused by IB Gateway/TWS on 127.0.0.1:7497''))"
      by (rule err)
  qed
qed

text \<open>
  The claim of C1 as it is worded fails in two ways. An exception of the
  market-data request or of the account query is caught where it occurs: the
  run returns a record whose \<open>error\<close> is \<open>None\<close>. And an exception of the
  client's \<open>disconnect\<close> in the final block leaves the function.
\<close>

theorem local_catch_and_failed_disconnect:
  "ib_reqMktData (sim_api dropping_sim)
       (Stock (symbol default_input) (exchange default_input) (currency default_input)) True
     = (Inl (ConnectionError ''Not connected''), False) \<and>
   \<not> isl (fst (initialize_stage_one (sim_api dropping_sim) default_input False)) \<and>
   error (projr (fst (initialize_stage_one (sim_api dropping_sim) default_input False))) = None \<and>
   ib_accountValues (sim_api failing_values_sim) (account_code default_input) True
     = (Inl (OtherException ''timeout''), True) \<and>
   \<not> isl (fst (initialize_stage_one (sim_api failing_values_sim) default_input False)) \<and>
   error (projr (fst (initialize_stage_one (sim_api failing_values_sim) default_input False)))
     = None \<and>
   ib_disconnect (sim_api disconnect_fails_sim) True = (Inl (OtherException ''socket closed''), True) \<and>
   fst (initialize_stage_one (sim_api disconnect_fails_sim) default_input False)
     = Inl (OtherException ''socket closed'')"
proof -
  have a: "ib_reqMktData (sim_api dropping_sim)
       (Stock (symbol default_input) (exchange default_input) (currency default_input)) True
     = (Inl (ConnectionError ''Not connected''), False)"
    by (simp add: sim_ops dropping_sim_def live_sim_def)
  have b: "\<not> isl (fst (initialize_stage_one (sim_api dropping_sim) default_input False)) \<and>
     error (projr (fst (initialize_stage_one (sim_api dropping_sim) default_input False))) = None"
    by (rule sim_run_without_error) (simp_all add: dropping_sim_def live_sim_def)
  have c: "ib_accountValues (sim_api failing_values_sim) (account_code default_input) True
     = (Inl (OtherException ''timeout''), True)"
    by (simp add: sim_simps failing_values_sim_def live_sim_def)
  have d: "\<not> isl (fst (initialize_stage_one (sim_api failing_values_sim) default_input False)) \<and>
     error (projr (fst (initialize_stage_one (sim_api failing_values_sim) default_input False)))
       = None"
    by (rule sim_run_without_error) (simp_all add: failing_values_sim_def live_sim_def)
  have e: "ib_disconnect (sim_api disconnect_fails_sim) True
      = (Inl (OtherException ''socket closed''), True)"
    by (simp add: sim_ops disconnect_fails_sim_def live_sim_def)
  have f: "fst (initialize_stage_one (sim_api disconnect_fails_sim) default_input False)
     = Inl (OtherException ''socket closed'')"
    by (rule sim_disconnect_escapes) (simp_all add: disconnect_fails_sim_def live_sim_def)
  from a b c d e f show ?thesis by (intro conjI) (elim conjE, assumption)+
qed

text \<open>
  C2. When session acquisition raises, the exception is a \<open>ConnectionError\<close>,
  and the returned record has \<open>connection_status\<close> false, an \<open>error\<close> that
  contains the text of that exception, \<open>market_data\<close> \<open>None\<close>, and as
  \<open>account_summary\<close> the mock mapping with the requested account code. The
  record is returned whenever the client reports the session closed after the
  failure.
\<close>

theorem connection_failure_result:
  assumes "get_ib_instance api inp (ConnectionManager_init s0) = (Inl e, w1)"
  shows "is_ConnectionError e \<and>
     (\<forall>r w. initialize_stage_one api inp s0 = (Inr r, w) \<longrightarrow>
        connection_status r = False \<and>
        error r = Some (''Stage One Connection Error: '' @ exn_text e) \<and>
        (\<exists>t. error r = Some t \<and> sublist (exn_text e) t) \<and>
        market_data r = MdNone \<and>
        map_of (account_summary r) ''AccountCode'' = Some (account_code inp) \<and>
        account_summary r =
          [(''AccountCode'', account_code inp),
           (''NetLiquidation'', ''1000000 (Mock)''),
           (''TotalCashValue'', ''1000000 (Mock)''),
           (''RealizedPnL'', ''0 (Mock)''),
           (''UnrealizedPnL'', ''0 (Mock)''),
           (''ConnectionStatus'', ''Disconnected - Mock Data'')]) \<and>
     (\<not> ib_isConnected api (ib w1) \<longrightarrow>
        (\<exists>r. initialize_stage_one api inp s0 = (Inr r, w1\<lparr>is_connected_flag := False\<rparr>)))"
proof (intro conjI allI impI)
  have "\<not> ib_instance (ConnectionManager_init s0)" by (simp add: ConnectionManager_init_def)
  from get_ib_instance_raises [OF assms this] show "is_ConnectionError e" by simp
next
  assume "\<not> ib_isConnected api (ib w1)"
  then show "\<exists>r. initialize_stage_one api inp s0 = (Inr r, w1\<lparr>is_connected_flag := False\<rparr>)"
    by (simp add: initialize_stage_one_failure [OF assms] stage_one_finally_closed)
next
  fix r w
  assume run: "initialize_stage_one api inp s0 = (Inr r, w)"
  let ?res = "initial_results\<lparr>error := Some (''Stage One Connection Error: '' @ exn_text e),
          account_summary :=
            [(''AccountCode'', account_code inp),
             (''NetLiquidation'', ''1000000 (Mock)''),
             (''TotalCashValue'', ''1000000 (Mock)''),
             (''RealizedPnL'', ''0 (Mock)''),
             (''UnrealizedPnL'', ''0 (Mock)''),
             (''ConnectionStatus'', ''Disconnected - Mock Data'')],
          connection_status := False\<rparr>"
  from run have "stage_one_finally api ?res
      (w1\<lparr>is_connected_flag := ib_isConnected api (ib w1)\<rparr>) = (Inr r, w)"
    by (simp only: initialize_stage_one_failure [OF assms])
  then have r: "r = ?res" by (rule stage_one_finally_result)
  show "connection_status r = False" by (simp add: r)
  show err: "error r = Some (''Stage One Connection Error: '' @ exn_text e)" by (simp add: r)
  show "\<exists>t. error r = Some t \<and> sublist (exn_text e) t"
  proof (intro exI conjI)
    show "error r = Some (''Stage One Connection Error: '' @ exn_text e)" by (rule err)
    show "sublist (exn_text e) (''Stage One Connection Error: '' @ exn_text e)"
      by (rule sublist_append_leftI)
  qed
  show "market_data r = MdNone" by (simp add: r initial_results_def)
  show "map_of (account_summary r) ''AccountCode'' = Some (account_code inp)" by (simp add: r)
  show "account_summary r =
          [(''AccountCode'', account_code inp),
           (''NetLiquidation'', ''1000000 (Mock)''),
           (''TotalCashValue'', ''1000000 (Mock)''),
           (''RealizedPnL'', ''0 (Mock)''),
           (''UnrealizedPnL'', ''0 (Mock)''),
           (''ConnectionStatus'', ''Disconnected - Mock Data'')]" by (simp add: r)
qed

theorem connection_failure_result_witness:
  "\<exists>r w. initialize_stage_one (sim_api refused_sim) default_input False = (Inr r, w) \<and>
     connection_status r = False \<and>
     error r = Some (''Stage One Connection Error: '' @
       exn_text (ConnectionError ''Connection refused by IB Gateway/TWS on 127.0.0.1:7497'')) \<and>
     market_data r = MdNone \<and>
     map_of (account_summary r) ''AccountCode'' = Some (account_code default_input)"
proof -
  note T = connection_failure_result [OF refused_get_ib_instance]
  have closed: "\<not> ib_isConnected (sim_api refused_sim)
      (ib \<lparr>ib = False, is_connected_flag = False, ib_instance = False, calls = [Connect]\<rparr>)"
    by (simp add: sim_simps)
  from T [THEN conjunct2, THEN conjunct2, rule_format, OF closed]
  obtain r where run: "initialize_stage_one (sim_api refused_sim) default_input False =
      (Inr r, \<lparr>ib = False, is_connected_flag = False, ib_instance = False, calls = [Connect]\<rparr>
         \<lparr>is_connected_flag := False\<rparr>)"
    by (elim exE)
  note F = T [THEN conjunct2, THEN conjunct1, rule_format, OF run]
  show ?thesis
  proof (intro exI conjI)
    show "initialize_stage_one (sim_api refused_sim) default_input False =
      (Inr r, \<lparr>ib = False, is_connected_flag = False, ib_instance = False, calls = [Connect]\<rparr>
         \<lparr>is_connected_flag := False\<rparr>)" by (rule run)
    show "connection_status r = False" by (rule F [THEN conjunct1])
    show "error r = Some (''Stage One Connection Error: '' @
       exn_text (ConnectionError ''Connection refused by IB Gateway/TWS on 127.0.0.1:7497''))"
      by (rule F [THEN conjunct2, THEN conjunct1])
    show "market_data r = MdNone"
      by (rule F [THEN conjunct2, THEN conjunct2, THEN conjunct2, THEN conjunct1])
    show "map_of (account_summary r) ''AccountCode'' = Some (account_code default_input)"
      by (rule F [THEN conjunct2, THEN conjunct2, THEN conjunct2, THEN conjunct2, THEN conjunct1])
  qed
qed

text \<open>
  C3 asks for exactly one call of the manager's \<open>disconnect\<close> on every branch.
  When the terminal refuses the connection, the run returns its record and
  \<open>disconnect\<close> is never called: the \<open>finally\<close> block calls it only if the
  manager reports a connection.
\<close>

theorem connection_failure_skips_disconnect:
  "\<not> isl (fst (initialize_stage_one (sim_api refused_sim) default_input False)) \<and>
   calls (snd (initialize_stage_one (sim_api refused_sim) default_input False)) = [Connect] \<and>
   count_list (calls (snd (initialize_stage_one (sim_api refused_sim) default_input False)))
     ManagerDisconnect = 0"
  by (simp add: refused_run)

theorem connection_failure_skips_disconnect_witness:
  "ManagerDisconnect \<notin>
     set (calls (snd (initialize_stage_one (sim_api refused_sim) default_input False)))"
  using connection_failure_skips_disconnect by simp

text \<open>
  C4, as the code has it. In every run that issued the market-data request,
  the request was issued once, and the cancellation is called once if the
  client reports the session open when the fetch has ended (with data, without
  data or with an exception), and not at all otherwise. The state the check
  reads is the one \<open>fetch_market_data\<close> leaves, starting from the state in
  which the setup of the run ended.
\<close>

theorem cancel_once_if_session_open:
  assumes "initialize_stage_one api inp s0 = (out, w_end)"
    and "ReqMktData \<in> set (calls w_end)"
  shows "\<exists>res w3.
     stage_one_setup api inp initial_results (ConnectionManager_init s0) = (Continue, res, w3) \<and>
     count_list (calls w_end) ReqMktData = 1 \<and>
     count_list (calls w_end) CancelMktData =
       (if ib_isConnected api (ib (snd (fetch_market_data api (symbol inp)
             (Stock (symbol inp) (exchange inp) (currency inp)) w3))) then 1 else 0)"
proof -
  from assms(1) have w_end: "w_end = snd (initialize_stage_one api inp s0)" by simp
  obtain f res w3 where
    su: "stage_one_setup api inp initial_results (ConnectionManager_init s0) = (f, res, w3)"
    by (cases "stage_one_setup api inp initial_results (ConnectionManager_init s0)")
  have "f = Continue"
  proof (rule ccontr)
    assume "f \<noteq> Continue"
    with su
    have "fst (stage_one_setup api inp initial_results (ConnectionManager_init s0)) \<noteq> Continue"
      by simp
    from no_market_step [OF this] have "ReqMktData \<notin> set (calls w_end)"
      by (simp add: w_end count_list_0_iff)
    with assms(2) show False by simp
  qed
  with su have c:
    "stage_one_setup api inp initial_results (ConnectionManager_init s0) = (Continue, res, w3)"
    by simp
  from market_step_counts [OF c] c show ?thesis
    unfolding w_end by blast
qed

theorem cancel_once_if_session_open_witness:
  "ReqMktData \<in> set (calls (snd (initialize_stage_one (sim_api live_sim) default_input False))) \<and>
   count_list (calls (snd (initialize_stage_one (sim_api live_sim) default_input False)))
     CancelMktData = 1"
proof -
  have su: "stage_one_setup (sim_api live_sim) default_input initial_results
      (ConnectionManager_init False) =
     (Continue,
      initial_results\<lparr>connection_status := True,
        account_summary :=
          [(''AccountCode'', account_code default_input),
           (''ConnectionStatus'', ''Connected - Live Data''),
           (''NetLiquidation'', ''250000''), (''CashBalance'', ''40000'')]\<rparr>,
      \<lparr>ib = True, is_connected_flag = True, ib_instance = True,
        calls = [Connect, AccountValues]\<rparr>)"
    by (rule sim_setup) (simp_all add: live_sim_def)
  have h1: "initialize_stage_one (sim_api live_sim) default_input False =
      (fst (initialize_stage_one (sim_api live_sim) default_input False),
       snd (initialize_stage_one (sim_api live_sim) default_input False))"
    by simp
  have h2: "ReqMktData \<in>
      set (calls (snd (initialize_stage_one (sim_api live_sim) default_input False)))"
    by (rule count_one_member) (rule market_step_counts(1) [OF su])
  from cancel_once_if_session_open [OF h1 h2] su
  have "count_list (calls (snd (initialize_stage_one (sim_api live_sim) default_input False)))
     CancelMktData =
       (if ib_isConnected (sim_api live_sim) (ib (snd (fetch_market_data (sim_api live_sim)
             (symbol default_input)
             (Stock (symbol default_input) (exchange default_input) (currency default_input))
             \<lparr>ib = True, is_connected_flag = True, ib_instance = True,
               calls = [Connect, AccountValues]\<rparr>))) then 1 else 0)"
    by auto
  then have "count_list
      (calls (snd (initialize_stage_one (sim_api live_sim) default_input False)))
      CancelMktData = 1"
    by (simp add: sim_simps sim_fetch_ib live_sim_def)
  with h2 show ?thesis by simp
qed

text \<open>
  The claim of C4 without the condition fails: when the session drops while
  the request is sent, the request was issued and the cancellation is never
  called.
\<close>

theorem cancel_not_called_after_drop:
  "ReqMktData \<in>
     set (calls (snd (initialize_stage_one (sim_api dropping_sim) default_input False))) \<and>
   count_list (calls (snd (initialize_stage_one (sim_api dropping_sim) default_input False)))
     CancelMktData \<noteq> 1"
proof -
  have su: "stage_one_setup (sim_api dropping_sim) default_input initial_results
      (ConnectionManager_init False) =
     (Continue,
      initial_results\<lparr>connection_status := True,
        account_summary :=
          [(''AccountCode'', account_code default_input),
           (''ConnectionStatus'', ''Connected - Live Data''),
           (''NetLiquidation'', ''250000''), (''CashBalance'', ''40000'')]\<rparr>,
      \<lparr>ib = True, is_connected_flag = True, ib_instance = True,
        calls = [Connect, AccountValues]\<rparr>)"
    by (rule sim_setup) (simp_all add: dropping_sim_def live_sim_def)
  have h2: "ReqMktData \<in>
      set (calls (snd (initialize_stage_one (sim_api dropping_sim) default_input False)))"
    by (rule count_one_member) (rule market_step_counts(1) [OF su])
  have "\<not> ib_isConnected (sim_api dropping_sim) (ib (snd (fetch_market_data
      (sim_api dropping_sim) (symbol default_input)
      (Stock (symbol default_input) (exchange default_input) (currency default_input))
      \<lparr>ib = True, is_connected_flag = True, ib_instance = True,
        calls = [Connect, AccountValues]\<rparr>)))"
    by (simp add: sim_simps sim_fetch_ib dropping_sim_def)
  with market_step_counts(2) [OF su] have "count_list
      (calls (snd (initialize_stage_one (sim_api dropping_sim) default_input False)))
      CancelMktData = 0"
    by simp
  with h2 show ?thesis by simp
qed

text \<open>
  C5, as the code has it. Take a run whose setup went on to the market-data
  step (the connection succeeded and the account summary was fetched), whose
  request and wait succeeded, and whose snapshot is no ticker or a ticker
  whose last and close prices are each \<open>None\<close> or \<open>0\<close>. If the cancellation
  does not raise, the returned \<open>market_data\<close> is the text
  \<open>No market data received for\<close> the symbol, \<open>connection_status\<close> is true
  and \<open>account_summary\<close> is the summary fetched before the step, and there
  is no \<open>error\<close>. A price that is NaN is true for the source's check, so a
  ticker holding one is outside this statement.
\<close>

theorem no_data_keeps_summary_and_status:
  assumes su: "stage_one_setup api inp initial_results (ConnectionManager_init s0)
      = (Continue, res, w3)"
    and req: "ib_reqMktData api (Stock (symbol inp) (exchange inp) (currency inp)) (ib w3)
      = (Inr u1, s1)"
    and slp: "ib_sleep api s1 = (Inr u2, s2)"
    and tick: "ib_ticker api (Stock (symbol inp) (exchange inp) (currency inp)) s2
      = (Inr tko, s3)"
    and none: "\<forall>t. tko = Some t \<longrightarrow> \<not> truthy (tk_last t) \<and> \<not> truthy (tk_close t)"
    and cancel: "ib_isConnected api s3 \<longrightarrow>
      fst (ib_cancelMktData api (Stock (symbol inp) (exchange inp) (currency inp)) s3) = Inr ()"
    and run: "initialize_stage_one api inp s0 = (Inr r, w_end)"
  shows "market_data r =
       MdText (''No market data received for '' @ symbol inp @ ''. Ticker: '' @ str_ticker tko) \<and>
     (\<exists>t. market_data r = MdText t \<and> sublist (''No market data received for '' @ symbol inp) t) \<and>
     connection_status res \<and>
     connection_status r = connection_status res \<and>
     account_summary r = account_summary res \<and>
     map_of (account_summary r) ''AccountCode'' = Some (account_code inp) \<and>
     error r = None"
proof -
  let ?con = "Stock (symbol inp) (exchange inp) (currency inp)"
  let ?text = "''No market data received for '' @ symbol inp @ ''. Ticker: '' @ str_ticker tko"
  have f: "fetch_market_data api (symbol inp) ?con w3 =
      (MdText ?text, w3\<lparr>ib := s3, calls := calls w3 @ [ReqMktData, Sleep, Ticker]\<rparr>)"
    using fetch_market_data_snapshot [OF req slp tick, of "symbol inp"]
    by (simp only: snapshot_no_price [OF none])
  have "fst (market_data_step api (symbol inp) ?con res w3) = Inr ()"
    by (rule market_data_step_normal) (simp add: f cancel)
  from run_without_exception [OF su this run]
  have r: "r = res\<lparr>market_data := MdText ?text\<rparr>" by (simp add: f)
  from stage_one_setup_Continue [OF su]
  have s: "connection_status res" "error res = None"
    "map_of (account_summary res) ''AccountCode'' = Some (account_code inp)"
    by (simp_all add: initial_results_def)
  have md: "market_data r = MdText ?text" by (simp add: r)
  have sub: "sublist (''No market data received for '' @ symbol inp) ?text"
    using sublist_append_rightI
      [of "''No market data received for '' @ symbol inp" "''. Ticker: '' @ str_ticker tko"]
    by (simp only: append_assoc)
  have ex: "\<exists>t. market_data r = MdText t \<and>
      sublist (''No market data received for '' @ symbol inp) t"
    using md sub by (intro exI conjI)
  show ?thesis
    using md ex s by (simp add: r)
qed

theorem no_data_keeps_summary_and_status_witness:
  "\<exists>r w. initialize_stage_one (sim_api no_ticker_sim) default_input False = (Inr r, w) \<and>
     market_data r = MdText (''No market data received for '' @ symbol default_input @
        ''. Ticker: '' @ str_ticker None) \<and>
     account_summary r =
       [(''AccountCode'', account_code default_input),
        (''ConnectionStatus'', ''Connected - Live Data''),
        (''NetLiquidation'', ''250000''), (''CashBalance'', ''40000'')] \<and>
     error r = None"
proof -
  have su: "stage_one_setup (sim_api no_ticker_sim) default_input initial_results
      (ConnectionManager_init False) =
     (Continue,
      initial_results\<lparr>connection_status := True,
        account_summary :=
          [(''AccountCode'', account_code default_input),
           (''ConnectionStatus'', ''Connected - Live Data''),
           (''NetLiquidation'', ''250000''), (''CashBalance'', ''40000'')]\<rparr>,
      \<lparr>ib = True, is_connected_flag = True, ib_instance = True,
        calls = [Connect, AccountValues]\<rparr>)"
    by (rule sim_setup) (simp_all add: no_ticker_sim_def live_sim_def)
  have req: "ib_reqMktData (sim_api no_ticker_sim) (Stock (symbol default_input) (exchange default_input) (currency default_input))
      (ib \<lparr>ib = True, is_connected_flag = True, ib_instance = True,
        calls = [Connect, AccountValues]\<rparr>) = (Inr (), True)"
    by (simp add: sim_ops no_ticker_sim_def live_sim_def)
  have slp: "ib_sleep (sim_api no_ticker_sim) True = (Inr (), True)"
    by (simp add: sim_simps)
  have tick: "ib_ticker (sim_api no_ticker_sim) (Stock (symbol default_input) (exchange default_input) (currency default_input)) True = (Inr None, True)"
    by (simp add: sim_simps no_ticker_sim_def live_sim_def)
  have quiet: "\<forall>s. fst (ib_disconnect (sim_api no_ticker_sim) s) = Inr ()"
    by (simp add: sim_ops no_ticker_sim_def live_sim_def)
  from stage_one_returns [OF quiet, of default_input False]
  obtain r w where run: "initialize_stage_one (sim_api no_ticker_sim) default_input False = (Inr r, w)"
    by (elim exE)
  have none: "\<forall>t. (None :: ticker option) = Some t \<longrightarrow>
      \<not> truthy (tk_last t) \<and> \<not> truthy (tk_close t)"
    by simp
  have cancel: "ib_isConnected (sim_api no_ticker_sim) True \<longrightarrow>
      fst (ib_cancelMktData (sim_api no_ticker_sim) (Stock (symbol default_input) (exchange default_input) (currency default_input)) True) = Inr ()"
    by (simp add: sim_ops no_ticker_sim_def live_sim_def)
  note F = no_data_keeps_summary_and_status [OF su req slp tick none cancel run]
  have summary: "account_summary r =
       [(''AccountCode'', account_code default_input),
        (''ConnectionStatus'', ''Connected - Live Data''),
        (''NetLiquidation'', ''250000''), (''CashBalance'', ''40000'')]"
    using F [THEN conjunct2, THEN conjunct2, THEN conjunct2, THEN conjunct2, THEN conjunct1]
    by simp
  show ?thesis
  proof (intro exI conjI)
    show "initialize_stage_one (sim_api no_ticker_sim) default_input False = (Inr r, w)"
      by (rule run)
    show "market_data r = MdText (''No market data received for '' @ symbol default_input @
        ''. Ticker: '' @ str_ticker None)"
      by (rule F [THEN conjunct1])
    show "account_summary r =
       [(''AccountCode'', account_code default_input),
        (''ConnectionStatus'', ''Connected - Live Data''),
        (''NetLiquidation'', ''250000''), (''CashBalance'', ''40000'')]"
      by (rule summary)
    show "error r = None"
      by (rule F [THEN conjunct2, THEN conjunct2, THEN conjunct2, THEN conjunct2,
            THEN conjunct2, THEN conjunct2])
  qed
qed

text \<open>
  The claim of C5 without the condition on the cancellation fails: the
  connection succeeded and the snapshot has no price, but the cancellation
  raises a \<open>ConnectionError\<close>, the handler of the outer \<open>try\<close> runs, and the
  returned \<open>connection_status\<close> is false.
\<close>

theorem failed_cancel_resets_connection_status:
  "fst (stage_one_setup (sim_api cancel_fails_sim) default_input initial_results
          (ConnectionManager_init False)) = Continue \<and>
   connection_status (fst (snd (stage_one_setup (sim_api cancel_fails_sim) default_input
          initial_results (ConnectionManager_init False)))) \<and>
   ib_ticker (sim_api cancel_fails_sim) (Stock (symbol default_input) (exchange default_input) (currency default_input)) True = (Inr (Some empty_ticker), True) \<and>
   tk_last empty_ticker = None \<and> tk_close empty_ticker = None \<and>
   \<not> isl (fst (initialize_stage_one (sim_api cancel_fails_sim) default_input False)) \<and>
   \<not> connection_status
        (projr (fst (initialize_stage_one (sim_api cancel_fails_sim) default_input False)))"
proof -
  let ?api = "sim_api cancel_fails_sim"
  let ?con = "Stock (symbol default_input) (exchange default_input) (currency default_input)"
  let ?e = "ConnectionError ''Not connected''"
  have su: "stage_one_setup (sim_api cancel_fails_sim) default_input initial_results
      (ConnectionManager_init False) =
     (Continue,
      initial_results\<lparr>connection_status := True,
        account_summary :=
          [(''AccountCode'', account_code default_input),
           (''ConnectionStatus'', ''Connected - Live Data''),
           (''NetLiquidation'', ''250000''), (''CashBalance'', ''40000'')]\<rparr>,
      \<lparr>ib = True, is_connected_flag = True, ib_instance = True,
        calls = [Connect, AccountValues]\<rparr>)"
    by (rule sim_setup) (simp_all add: cancel_fails_sim_def live_sim_def)
  have tick: "ib_ticker ?api ?con True = (Inr (Some empty_ticker), True)"
    by (simp add: sim_simps cancel_fails_sim_def live_sim_def)
  have quiet: "\<forall>s. fst (ib_disconnect ?api s) = Inr ()"
    by (simp add: sim_ops cancel_fails_sim_def live_sim_def)
  obtain out res' w4 where step: "stage_one_try ?api default_input initial_results
      (ConnectionManager_init False) = (out, res', w4)"
    by (cases "stage_one_try ?api default_input initial_results (ConnectionManager_init False)")
  have "fst (stage_one_try ?api default_input initial_results (ConnectionManager_init False))
      = Inl ?e"
    unfolding stage_one_try_Continue [OF su]
    by (rule sim_step_cancel_raises) (simp_all add: cancel_fails_sim_def live_sim_def)
  with step have out: "out = Inl ?e" by simp
  obtain res1 w1 where x: "stage_one_except ?api default_input ?e res' w4 = (Inr (), res1, w1)"
    and cs: "is_ConnectionError ?e \<longrightarrow> \<not> connection_status res1"
    using stage_one_except_result [of ?api default_input ?e res' w4] by blast
  from step out x have "initialize_stage_one ?api default_input False
      = stage_one_finally ?api res1 w1"
    by (simp add: initialize_stage_one_raised)
  moreover obtain w' where "stage_one_finally ?api res1 w1 = (Inr res1, w')"
    using stage_one_finally_returns [OF quiet] by blast
  ultimately have run: "initialize_stage_one ?api default_input False = (Inr res1, w')" by simp
  from cs have "\<not> connection_status res1" by simp
  with run su tick show ?thesis by (simp add: empty_ticker_def)
qed

text \<open>
  C9. The check for data is the truthiness of \<open>last\<close> and \<open>close\<close>: when the
  snapshot is a ticker whose last and close prices are both false (\<open>0\<close> or
  \<open>None\<close>), the returned \<open>market_data\<close> is the text
  \<open>No market data received for\<close> the symbol, never a mapping, whatever the
  other fields of the ticker hold.
\<close>

theorem falsy_prices_give_no_data:
  assumes su: "stage_one_setup api inp initial_results (ConnectionManager_init s0)
      = (Continue, res, w3)"
    and req: "ib_reqMktData api (Stock (symbol inp) (exchange inp) (currency inp)) (ib w3)
      = (Inr u1, s1)"
    and slp: "ib_sleep api s1 = (Inr u2, s2)"
    and tick: "ib_ticker api (Stock (symbol inp) (exchange inp) (currency inp)) s2
      = (Inr (Some t), s3)"
    and last: "\<not> truthy (tk_last t)"
    and close: "\<not> truthy (tk_close t)"
    and run: "initialize_stage_one api inp s0 = (Inr r, w_end)"
  shows "market_data r =
       MdText (''No market data received for '' @ symbol inp @ ''. Ticker: '' @ tk_str t) \<and>
     (\<forall>m. market_data r \<noteq> MdDict m)"
proof -
  let ?con = "Stock (symbol inp) (exchange inp) (currency inp)"
  have "snapshot (symbol inp) (Some t) =
      MdText (''No market data received for '' @ symbol inp @ ''. Ticker: '' @ tk_str t)"
    using last close by (simp add: snapshot_def)
  with fetch_market_data_snapshot [OF req slp tick, of "symbol inp"]
  have "fst (fetch_market_data api (symbol inp) ?con w3) =
      MdText (''No market data received for '' @ symbol inp @ ''. Ticker: '' @ tk_str t)"
    by simp
  with run_market_data [OF su run] show ?thesis by simp
qed

theorem falsy_prices_give_no_data_witness:
  "\<exists>r w. initialize_stage_one (sim_api zero_price_sim) default_input False = (Inr r, w) \<and>
     tk_last zero_ticker = Some (Num 0) \<and> tk_close zero_ticker = Some (Num 0) \<and>
     market_data r = MdText (''No market data received for '' @ symbol default_input @
        ''. Ticker: '' @ tk_str zero_ticker)"
proof -
  have su: "stage_one_setup (sim_api zero_price_sim) default_input initial_results
      (ConnectionManager_init False) =
     (Continue,
      initial_results\<lparr>connection_status := True,
        account_summary :=
          [(''AccountCode'', account_code default_input),
           (''ConnectionStatus'', ''Connected - Live Data''),
           (''NetLiquidation'', ''250000''), (''CashBalance'', ''40000'')]\<rparr>,
      \<lparr>ib = True, is_connected_flag = True, ib_instance = True,
        calls = [Connect, AccountValues]\<rparr>)"
    by (rule sim_setup) (simp_all add: zero_price_sim_def live_sim_def)
  have req: "ib_reqMktData (sim_api zero_price_sim) (Stock (symbol default_input) (exchange default_input) (currency default_input))
      (ib \<lparr>ib = True, is_connected_flag = True, ib_instance = True,
        calls = [Connect, AccountValues]\<rparr>) = (Inr (), True)"
    by (simp add: sim_ops zero_price_sim_def live_sim_def)
  have slp: "ib_sleep (sim_api zero_price_sim) True = (Inr (), True)"
    by (simp add: sim_simps)
  have tick: "ib_ticker (sim_api zero_price_sim) (Stock (symbol default_input) (exchange default_input) (currency default_input)) True = (Inr (Some zero_ticker), True)"
    by (simp add: sim_simps zero_price_sim_def live_sim_def)
  have quiet: "\<forall>s. fst (ib_disconnect (sim_api zero_price_sim) s) = Inr ()"
    by (simp add: sim_ops zero_price_sim_def live_sim_def)
  from stage_one_returns [OF quiet, of default_input False]
  obtain r w where run: "initialize_stage_one (sim_api zero_price_sim) default_input False = (Inr r, w)"
    by (elim exE)
  have last: "\<not> truthy (tk_last zero_ticker)" by (simp add: zero_ticker_def)
  have close: "\<not> truthy (tk_close zero_ticker)" by (simp add: zero_ticker_def)
  note F = falsy_prices_give_no_data [OF su req slp tick last close run]
  show ?thesis
  proof (intro exI conjI)
    show "initialize_stage_one (sim_api zero_price_sim) default_input False = (Inr r, w)"
      by (rule run)
    show "tk_last zero_ticker = Some (Num 0)" by (simp add: zero_ticker_def)
    show "tk_close zero_ticker = Some (Num 0)" by (simp add: zero_ticker_def)
    show "market_data r = MdText (''No market data received for '' @ symbol default_input @
        ''. Ticker: '' @ tk_str zero_ticker)"
      by (rule F [THEN conjunct1])
  qed
qed

end
